theory Spec2Isabelle
  imports Main "HOL-Library.AList"
begin

section \<open>OPAL core views (opal/views.py)\<close>

text \<open>
  A shallow embedding of the request handlers of \<^verbatim>\<open>opal/views.py\<close>. The module is
  glue over a web framework, an ORM and the model layer of the application. The handlers
  are translated statement by statement; the collaborators that live outside the module
  (model methods, the template loader, helper functions of \<^verbatim>\<open>opal.core\<close> and
  \<^verbatim>\<open>opal.utils\<close>) are parameters, gathered in the record \<open>env\<close>.
\<close>

subsection \<open>Values, exceptions, responses\<close>

text \<open>JSON-shaped Python values: what a serialiser returns and what a request body holds.
  A dictionary is an association list; its order is the iteration order.\<close>

datatype json =
    JNull
  | JBool bool
  | JInt int
  | JStr string
  | JList "json list"
  | JDict "(string \<times> json) list"

text \<open>The exceptions the module names or that its own subscripts raise.\<close>

datatype exn =
    ConsistencyError
  | APIError
  | DoesNotExist
  | TemplateDoesNotExist
  | KeyError string
  | IndexError
  | TypeError
  | AttributeError
  | ValueError
  | UnicodeEncodeError

text \<open>Python truthiness of a value (\<^verbatim>\<open>if v:\<close>).\<close>

fun truthy :: "json \<Rightarrow> bool" where
  "truthy JNull = False"
| "truthy (JBool b) = b"
| "truthy (JInt i) = (i \<noteq> 0)"
| "truthy (JStr s) = (s \<noteq> [])"
| "truthy (JList xs) = (xs \<noteq> [])"
| "truthy (JDict kvs) = (kvs \<noteq> [])"

text \<open>\<^verbatim>\<open>d[k]\<close> on a dictionary: KeyError when the key is absent.\<close>

definition getitem :: "(string \<times> 'v) list \<Rightarrow> string \<Rightarrow> exn + 'v" where
  "getitem d k = (case map_of d k of None \<Rightarrow> Inl (KeyError k) | Some v \<Rightarrow> Inr v)"

text \<open>An HTTP response: status code, body (\<open>None\<close> for an empty body) and the headers
  set on it explicitly.\<close>

record response =
  status_code :: nat
  content :: "json option"
  headers :: "(string \<times> string) list"

definition HttpResponseNotFound :: response where
  "HttpResponseNotFound = \<lparr>status_code = 404, content = None, headers = []\<rparr>"

definition HttpResponseNotAllowed :: "string list \<Rightarrow> response" where
  "HttpResponseNotAllowed permitted =
     \<lparr>status_code = 405, content = None,
      headers = [(''Allow'', concat (map (\<lambda>m. m @ '', '') (butlast permitted)) @
                             (case permitted of [] \<Rightarrow> [] | _ \<Rightarrow> last permitted))]\<rparr>"

subsection \<open>Python string methods\<close>

text \<open>A text value is a list of characters, each a code point below 256: ASCII and
  Latin-1. \<^verbatim>\<open>title\<close> and \<^verbatim>\<open>replace('_', ' ')\<close> are applied to the underscore names
  of classes, which are ASCII; \<open>is_upper\<close>, \<open>is_lower\<close>, \<open>lower_char\<close> and
  \<open>upper_char\<close> are their ASCII letters.\<close>

definition is_upper :: "char \<Rightarrow> bool" where
  "is_upper c = (65 \<le> (of_char c :: nat) \<and> (of_char c :: nat) \<le> 90)"

definition is_lower :: "char \<Rightarrow> bool" where
  "is_lower c = (97 \<le> (of_char c :: nat) \<and> (of_char c :: nat) \<le> 122)"

definition lower_char :: "char \<Rightarrow> char" where
  "lower_char c = (if is_upper c then char_of ((of_char c :: nat) + 32) else c)"

definition upper_char :: "char \<Rightarrow> char" where
  "upper_char c = (if is_lower c then char_of ((of_char c :: nat) - 32) else c)"

text \<open>\<^verbatim>\<open>lower()\<close> of a text value. The capital letters below 256 are \<^verbatim>\<open>A\<close> to
  \<^verbatim>\<open>Z\<close> and the Latin-1 capitals U+00C0 to U+00DE without U+00D7 (the multiplication
  sign); the lower-case letter of each is 32 above it. No other character below 256 is
  changed.\<close>

definition is_ascii :: "char \<Rightarrow> bool" where
  "is_ascii c = ((of_char c :: nat) < 128)"

definition is_capital :: "char \<Rightarrow> bool" where
  "is_capital c =
     (is_upper c
      \<or> (192 \<le> (of_char c :: nat) \<and> (of_char c :: nat) \<le> 222 \<and> (of_char c :: nat) \<noteq> 215))"

definition lower_code_point :: "char \<Rightarrow> char" where
  "lower_code_point c = (if is_capital c then char_of ((of_char c :: nat) + 32) else c)"

definition lower :: "string \<Rightarrow> string" where
  "lower s = map lower_code_point s"

text \<open>\<^verbatim>\<open>'<before>{0}<after>'.format(arg)\<close> for a text value \<open>arg\<close>. The module is
  Python 2 code (the comprehension over a tuple without parentheses in
  \<^verbatim>\<open>_get_column_context\<close> is no Python 3 syntax) and imports no
  \<^verbatim>\<open>unicode_literals\<close>: the literal is a byte string, and formatting a text value into
  it encodes the value as ASCII, which raises \<open>UnicodeEncodeError\<close> at any other
  character. Under a Python 3 interpreter the literal is text and every character is
  kept.\<close>

datatype python = Python2 | Python3

definition format_text :: "python \<Rightarrow> string \<Rightarrow> string \<Rightarrow> string \<Rightarrow> exn + string" where
  "format_text py before arg after =
     (if py = Python2 \<and> \<not> list_all is_ascii arg then Inl UnicodeEncodeError
      else Inr (before @ arg @ after))"

text \<open>\<^verbatim>\<open>str.title\<close>: a cased character that follows an uncased one (or starts the
  string) is upper-cased, every other cased character is lower-cased. The flag is
  \<^verbatim>\<open>previous_is_cased\<close>.\<close>

fun title_from :: "bool \<Rightarrow> string \<Rightarrow> string" where
  "title_from prev [] = []"
| "title_from prev (c # cs) =
     (if is_lower c then (if prev then c else upper_char c) # title_from True cs
      else if is_upper c then (if prev then lower_char c else c) # title_from True cs
      else c # title_from False cs)"

definition title :: "string \<Rightarrow> string" where
  "title s = title_from False s"

definition replace_underscores :: "string \<Rightarrow> string" where
  "replace_underscores s = map (\<lambda>c. if c = CHR ''_'' then CHR '' '' else c) s"

subsection \<open>Stored records\<close>

text \<open>An \<^verbatim>\<open>Episode\<close> row with the fields the module reads and writes. \<open>episode_pk\<close> is
  \<open>None\<close> on an instance that has not been saved. \<open>patient\<close> is the primary key of the
  patient row.\<close>

record episode =
  episode_pk :: "nat option"
  patient :: nat
  category :: string
  date_of_admission :: json

subsection \<open>Detail templates by naming convention\<close>

text \<open>\<^verbatim>\<open>EpisodeDetailTemplateView.get_template_names\<close>; \<open>self.episode\<close> is the
  argument, read from the database, so that its category is a text value.\<close>

definition get_template_names :: "python \<Rightarrow> episode \<Rightarrow> exn + string list" where
  "get_template_names py self_episode =
     (case format_text py ''detail/'' (lower (category self_episode)) ''.html'' of
        Inl e \<Rightarrow> Inl e
      | Inr name \<Rightarrow>
          (let names = [name, ''detail/default.html'']
           in Inr names))"

subsection \<open>Column schemas\<close>

text \<open>A column is a subrecord model class: \<open>col_name\<close> is \<^verbatim>\<open>__name__\<close>,
  \<open>col_is_singleton\<close> is \<^verbatim>\<open>_is_singleton\<close>; the optional class attributes
  \<^verbatim>\<open>_title\<close>, \<^verbatim>\<open>_icon\<close>, \<^verbatim>\<open>_list_limit\<close> and \<^verbatim>\<open>_batch_template\<close>
  are \<open>None\<close> when the class does not define them.\<close>

record column =
  col_name :: string
  col_is_singleton :: bool
  col_title :: "json option"
  col_icon :: "json option"
  col_list_limit :: "json option"
  col_batch_template :: "json option"

text \<open>A value of a list-schema dictionary: a list of columns, or a dictionary of
  further schemas keyed by subtag (with an optional \<^verbatim>\<open>'default'\<close>).\<close>

datatype schemas =
    Columns "column list"
  | Teams "(string \<times> schemas) list"

text \<open>\<^verbatim>\<open>k in v\<close> for a string \<open>k\<close>: key membership on a dictionary; on a list of
  column classes no element equals a string.\<close>

fun contains :: "schemas \<Rightarrow> string \<Rightarrow> bool" where
  "contains (Teams d) k = (map_of d k \<noteq> None)"
| "contains (Columns cs) k = False"

text \<open>\<^verbatim>\<open>v[k]\<close> for a string \<open>k\<close>: a list does not take a string index.\<close>

fun subscript :: "schemas \<Rightarrow> string \<Rightarrow> exn + schemas" where
  "subscript (Teams d) k = getitem d k"
| "subscript (Columns cs) k = Inl TypeError"



text \<open>The local variable \<^verbatim>\<open>active_schema\<close> of
  \<^verbatim>\<open>EpisodeTemplateView.get_column_context\<close> when the method reaches its last line.
  \<open>L\<close> is \<^verbatim>\<open>LIST_SCHEMAS\<close>, \<open>self_column_schema\<close> is \<^verbatim>\<open>self.column_schema\<close>.\<close>

definition active_schema ::
  "(string \<times> schemas) list \<Rightarrow> schemas \<Rightarrow> (string \<rightharpoonup> string) \<Rightarrow> exn + schemas" where
  "active_schema L self_column_schema kwargs =
     (case kwargs ''tag'' of
        None \<Rightarrow> Inr self_column_schema
      | Some tag \<Rightarrow>
          (case map_of L tag of
             None \<Rightarrow> Inr self_column_schema
           | Some entry \<Rightarrow>
               (if (case kwargs ''subtag'' of None \<Rightarrow> False
                    | Some subtag \<Rightarrow> contains entry subtag)
                then (case kwargs ''subtag'' of None \<Rightarrow> Inl (KeyError ''subtag'')
                      | Some subtag \<Rightarrow> subscript entry subtag)
                else if contains entry ''default''
                then subscript entry ''default''
                else getitem L ''default'')))"

subsection \<open>Database state and requests\<close>

text \<open>A row of an episode subrecord table: its primary key (\<open>None\<close> on an instance not
  yet saved), the primary key of the episode it belongs to, and its other fields.\<close>

record item =
  item_pk :: "nat option"
  item_episode :: "nat option"
  item_fields :: "(string \<times> json) list"

text \<open>An episode subrecord model class together with the rows of its table
  (\<^verbatim>\<open>sub.objects\<close>).\<close>

record subrecord =
  model :: column
  objects :: "item list"

text \<open>What \<^verbatim>\<open>glossolalia.change\<close> and \<^verbatim>\<open>glossolalia.admit\<close> were called with.\<close>

datatype event = Change json json | Admit json

text \<open>The state the handlers run against: the episode table, the episode subrecord
  tables in the order of \<^verbatim>\<open>episode_subrecords()\<close>, and the calls made to glossolalia.
  Every other table is in the extension part of the record.\<close>

record state =
  episodes :: "episode list"
  subrecords :: "subrecord list"
  glossolalia :: "event list"

text \<open>A request: \<open>data\<close> is the dictionary \<^verbatim>\<open>_get_request_data(request)\<close> returns,
  \<open>GET\<close> the query parameters.\<close>

record request =
  http_method :: string
  user :: string
  GET :: "string \<rightharpoonup> string"
  data :: "(string \<times> json) list"

text \<open>A value of the \<^verbatim>\<open>filter_kwargs\<close> dictionary of \<^verbatim>\<open>EpisodeListView.get\<close>.\<close>

datatype filter_value = Name string | User string

subsection \<open>Collaborators outside the module\<close>

text \<open>
  The model layer, \<^verbatim>\<open>opal.core.views\<close>, \<^verbatim>\<open>opal.utils\<close> and the template directories
  are not part of \<^verbatim>\<open>opal/views.py\<close>; a handler takes them as the record \<open>env\<close>.
  A method that writes to the database or checks request data takes the state and returns
  its outcome (\<open>Inl\<close> an exception) with the new state; a serialiser reads the state
  and returns a value, and so do the queries: the module handles no exception of theirs.
  \<^item> \<open>default_status_code\<close>, \<open>json_headers\<close>: the status \<^verbatim>\<open>_build_json_response\<close> uses
    when none is given, and the headers it sets;
  \<^item> \<open>no_caching_headers\<close>: what \<^verbatim>\<open>with_no_caching\<close> does to the headers of a response;
  \<^item> \<open>template_exists\<close>: the templates the template loader finds;
  \<^item> \<open>to_dict env st e u shallow\<close> is \<^verbatim>\<open>e.to_dict(u, shallow=shallow)\<close>,
    \<open>patient_to_dict\<close> is \<^verbatim>\<open>Patient.to_dict\<close>;
  \<^item> \<open>serialised_active\<close> is \<^verbatim>\<open>Episode.objects.serialised_active(user, **filters)\<close>;
  \<^item> \<open>patient_filter env st f o\<close> is \<^verbatim>\<open>Patient.objects.filter(**f).order_by(o)\<close>, as the
    list of primary keys;
  \<^item> \<open>get_or_create env hn\<close> is
    \<^verbatim>\<open>Patient.objects.get_or_create(demographics__hospital_number=hn)[0]\<close>,
    \<open>patient_create\<close> is \<^verbatim>\<open>Patient.objects.create()\<close>;
  \<^item> \<open>location_set_get env st e\<close> is \<^verbatim>\<open>e.location_set.get()\<close>;
  \<^item> the other fields carry the name of the method they stand for.
\<close>

record 'z env =
  default_status_code :: nat
  json_headers :: "(string \<times> string) list"
  no_caching_headers :: "(string \<times> string) list \<Rightarrow> (string \<times> string) list"
  camelcase_to_underscore :: "string \<Rightarrow> string"
  get_display_template :: "column \<Rightarrow> string option \<Rightarrow> string option \<Rightarrow> json"
  template_exists :: "string \<Rightarrow> bool"
  to_dict :: "'z state_scheme \<Rightarrow> episode \<Rightarrow> string \<Rightarrow> bool \<Rightarrow> json"
  patient_to_dict :: "'z state_scheme \<Rightarrow> nat \<Rightarrow> string \<Rightarrow> json"
  serialised_active ::
    "'z state_scheme \<Rightarrow> string \<Rightarrow> (string \<times> filter_value) list \<Rightarrow> json"
  patient_filter :: "'z state_scheme \<Rightarrow> (string \<times> string) list \<Rightarrow> string \<Rightarrow> nat list"
  update_from_dict ::
    "episode \<Rightarrow> (string \<times> json) list \<Rightarrow> string \<Rightarrow> 'z state_scheme
       \<Rightarrow> (exn + episode) \<times> 'z state_scheme"
  get_or_create :: "json \<Rightarrow> 'z state_scheme \<Rightarrow> (exn + nat) \<times> 'z state_scheme"
  patient_create :: "'z state_scheme \<Rightarrow> (exn + nat) \<times> 'z state_scheme"
  update_from_demographics_dict ::
    "nat \<Rightarrow> json \<Rightarrow> string \<Rightarrow> 'z state_scheme \<Rightarrow> (exn + unit) \<times> 'z state_scheme"
  create_episode :: "nat \<Rightarrow> 'z state_scheme \<Rightarrow> (exn + episode) \<times> 'z state_scheme"
  get_fieldnames_to_serialize :: "string list"
  location_set_get :: "'z state_scheme \<Rightarrow> episode \<Rightarrow> exn + item"
  location_update_from_dict ::
    "item \<Rightarrow> json \<Rightarrow> string \<Rightarrow> 'z state_scheme \<Rightarrow> (exn + unit) \<times> 'z state_scheme"
  set_tag_names ::
    "episode \<Rightarrow> string list \<Rightarrow> string \<Rightarrow> 'z state_scheme \<Rightarrow> (exn + unit) \<times> 'z state_scheme"

text \<open>Modelled from the spec: \<^verbatim>\<open>_build_json_response(data, status_code)\<close> of
  \<^verbatim>\<open>opal.core.views\<close> is not in the module. It is taken to build a response whose body
  is the JSON encoding of \<open>data\<close>, with the given status code; \<open>None\<close> stands for the
  argument left out, and the status it then uses and the headers it sets are parameters.\<close>

definition build_json_response :: "'z env \<Rightarrow> json \<Rightarrow> nat option \<Rightarrow> response" where
  "build_json_response env d status =
     \<lparr>status_code = (case status of None \<Rightarrow> default_status_code env | Some c \<Rightarrow> c),
      content = Some d,
      headers = json_headers env\<rparr>"

text \<open>The decorator \<^verbatim>\<open>require_http_methods\<close> of the framework: a request with another
  method is answered with 405 and the view is not called.\<close>

definition require_http_methods ::
  "string list \<Rightarrow> (request \<Rightarrow> 's \<Rightarrow> (exn + response) \<times> 's)
     \<Rightarrow> request \<Rightarrow> 's \<Rightarrow> (exn + response) \<times> 's" where
  "require_http_methods request_method_list func request st =
     (if http_method request \<notin> set request_method_list
      then (Inr (HttpResponseNotAllowed request_method_list), st)
      else func request st)"

text \<open>Modelled from the spec: the decorator \<^verbatim>\<open>with_no_caching\<close> of
  \<^verbatim>\<open>opal.core.views\<close> is not in the module. It is taken to change the headers of the
  response of the view, through the parameter \<open>no_caching_headers\<close>, and nothing else.\<close>

definition with_no_caching ::
  "'z env \<Rightarrow> (request \<Rightarrow> 's \<Rightarrow> (exn + response) \<times> 's)
     \<Rightarrow> request \<Rightarrow> 's \<Rightarrow> (exn + response) \<times> 's" where
  "with_no_caching env view request st =
     (case view request st of
        (Inl e, st') \<Rightarrow> (Inl e, st')
      | (Inr r, st') \<Rightarrow> (Inr (r\<lparr>headers := no_caching_headers env (headers r)\<rparr>), st'))"

subsection \<open>ORM operations on the tables of the state\<close>

text \<open>\<^verbatim>\<open>Episode.objects.get(pk=pk)\<close>: the row with that primary key, \<open>None\<close> for
  \<^verbatim>\<open>DoesNotExist\<close>.\<close>

definition episode_get :: "episode list \<Rightarrow> nat \<Rightarrow> episode option" where
  "episode_get rows pk = find (\<lambda>e. episode_pk e = Some pk) rows"

text \<open>The primary key the database gives to the next inserted row: above every key in
  the table.\<close>

definition next_pk :: "nat option list \<Rightarrow> nat" where
  "next_pk pks = Suc (fold max (List.map_filter (\<lambda>k. k) pks) 0)"

text \<open>\<^verbatim>\<open>Model.save()\<close>: an instance without primary key is inserted under a new key; an
  instance with a key replaces the row of that key, or is inserted when there is none.
  The saved instance is returned with the table.\<close>

definition save_episode :: "episode \<Rightarrow> episode list \<Rightarrow> episode \<times> episode list" where
  "save_episode e rows =
     (case episode_pk e of
        None \<Rightarrow>
          (let e' = e\<lparr>episode_pk := Some (next_pk (map episode_pk rows))\<rparr>
           in (e', rows @ [e']))
      | Some k \<Rightarrow>
          (if Some k \<in> set (map episode_pk rows)
           then (e, map (\<lambda>r. if episode_pk r = Some k then e else r) rows)
           else (e, rows @ [e])))"

definition save_item :: "item \<Rightarrow> item list \<Rightarrow> item \<times> item list" where
  "save_item i rows =
     (case item_pk i of
        None \<Rightarrow> (let i' = i\<lparr>item_pk := Some (next_pk (map item_pk rows))\<rparr> in (i', rows @ [i']))
      | Some k \<Rightarrow>
          (if Some k \<in> set (map item_pk rows)
           then (i, map (\<lambda>r. if item_pk r = Some k then i else r) rows)
           else (i, rows @ [i])))"

subsection \<open>Sequencing calls that may raise\<close>

text \<open>One statement after another: an exception ends the sequence and keeps the state
  reached so far.\<close>

definition andthen ::
  "('s \<Rightarrow> (exn + 'a) \<times> 's) \<Rightarrow> ('a \<Rightarrow> 's \<Rightarrow> (exn + 'b) \<times> 's) \<Rightarrow> 's \<Rightarrow> (exn + 'b) \<times> 's" where
  "andthen m f st = (case m st of (Inl e, st') \<Rightarrow> (Inl e, st') | (Inr x, st') \<Rightarrow> f x st')"

text \<open>An expression that reads the state and may raise.\<close>

definition yield :: "(exn + 'a) \<Rightarrow> 's \<Rightarrow> (exn + 'a) \<times> 's" where
  "yield r st = (r, st)"

text \<open>\<^verbatim>\<open>v.get(k)\<close>, \<^verbatim>\<open>v[0]\<close> and \<^verbatim>\<open>v.items()\<close> on a value of the request body.\<close>

fun dict_get :: "json \<Rightarrow> string \<Rightarrow> exn + json" where
  "dict_get (JDict d) k = Inr (case map_of d k of None \<Rightarrow> JNull | Some v \<Rightarrow> v)"
| "dict_get v k = Inl AttributeError"

fun first_item :: "json \<Rightarrow> exn + json" where
  "first_item (JList (x # xs)) = Inr x"
| "first_item (JList []) = Inl IndexError"
| "first_item (JStr (c # cs)) = Inr (JStr [c])"
| "first_item (JStr []) = Inl IndexError"
| "first_item (JDict d) = Inl (KeyError ''0'')"
| "first_item v = Inl TypeError"

fun items :: "json \<Rightarrow> exn + (string \<times> json) list" where
  "items (JDict d) = Inr d"
| "items v = Inl AttributeError"

subsection \<open>The legacy JSON API\<close>

text \<open>\<^verbatim>\<open>episode_detail_view(request, pk)\<close>, first the function, then the function under
  its decorator.\<close>

definition episode_detail_view_func ::
  "'z env \<Rightarrow> nat \<Rightarrow> request \<Rightarrow> 'z state_scheme \<Rightarrow> (exn + response) \<times> 'z state_scheme" where
  "episode_detail_view_func env pk request st =
     (case episode_get (episodes st) pk of
        None \<Rightarrow> (Inr HttpResponseNotFound, st)
      | Some episode \<Rightarrow>
          (if http_method request = ''GET''
           then (let serialized = to_dict env st episode (user request) False
                 in (Inr (build_json_response env serialized None), st))
           else
             (let d = data request;
                  pre = to_dict env st episode (user request) False
              in case update_from_dict env episode d (user request) st of
                   (Inl e, st1) \<Rightarrow>
                     (if e = ConsistencyError
                      then (Inr (build_json_response env
                                   (JDict [(''error'', JStr ''Item has changed'')]) (Some 409)), st1)
                      else (Inl e, st1))
                 | (Inr episode1, st1) \<Rightarrow>
                     (let post = to_dict env st1 episode1 (user request) False;
                          st2 = st1\<lparr>glossolalia := glossolalia st1 @ [Change pre post]\<rparr>
                      in (Inr (build_json_response env
                                 (to_dict env st2 episode1 (user request) True) None), st2)))))"

definition episode_detail_view ::
  "'z env \<Rightarrow> request \<Rightarrow> nat \<Rightarrow> 'z state_scheme \<Rightarrow> (exn + response) \<times> 'z state_scheme" where
  "episode_detail_view env request pk =
     require_http_methods [''GET'', ''PUT''] (episode_detail_view_func env pk) request"

text \<open>The dictionary \<^verbatim>\<open>episode_data\<close> of \<^verbatim>\<open>episode_list_and_create_view\<close>: the
  fields of the request body that are episode fields.\<close>

definition episode_data :: "string list \<Rightarrow> (string \<times> json) list \<Rightarrow> (string \<times> json) list" where
  "episode_data episode_fields d =
     foldl (\<lambda>acc fname. case map_of d fname of
                           None \<Rightarrow> acc
                         | Some v \<Rightarrow> AList.update fname v acc) [] episode_fields"

text \<open>The body of the \<^verbatim>\<open>try\<close> statement of the POST branch: the new episode, updated
  from the request.\<close>

definition create_and_update ::
  "'z env \<Rightarrow> request \<Rightarrow> nat \<Rightarrow> 'z state_scheme \<Rightarrow> (exn + episode) \<times> 'z state_scheme" where
  "create_and_update env request patient_pk =
     andthen (create_episode env patient_pk) (\<lambda>episode.
       (let episode_fields = get_fieldnames_to_serialize env
        in update_from_dict env episode (episode_data episode_fields (data request))
             (user request)))"

text \<open>The statements of the POST branch before the \<^verbatim>\<open>try\<close> statement: the patient
  of the request, found or created, and updated from the demographics of the request.\<close>

definition find_patient ::
  "'z env \<Rightarrow> request \<Rightarrow> 'z state_scheme \<Rightarrow> (exn + nat) \<times> 'z state_scheme" where
  "find_patient env request =
     andthen (yield (getitem (data request) ''demographics'')) (\<lambda>demographics.
     andthen (yield (dict_get demographics ''hospital_number'')) (\<lambda>hospital_number.
     andthen (if truthy hospital_number
              then get_or_create env hospital_number
              else patient_create env) (\<lambda>patient_pk.
     andthen (update_from_demographics_dict env patient_pk demographics (user request)) (\<lambda>_.
       yield (Inr patient_pk)))))"

text \<open>The statements after the \<^verbatim>\<open>try\<close> statement: the location is updated, the tags
  are set, the episode is serialised.\<close>

definition update_location ::
  "'z env \<Rightarrow> request \<Rightarrow> episode \<Rightarrow> 'z state_scheme \<Rightarrow> (exn + unit) \<times> 'z state_scheme" where
  "update_location env request episode =
     andthen (\<lambda>st. yield (location_set_get env st episode) st) (\<lambda>location.
     andthen (yield (getitem (data request) ''location'')) (\<lambda>location_data.
       location_update_from_dict env location location_data (user request)))"

definition set_tags ::
  "'z env \<Rightarrow> request \<Rightarrow> episode \<Rightarrow> 'z state_scheme \<Rightarrow> (exn + unit) \<times> 'z state_scheme" where
  "set_tags env request episode =
     (if map_of (data request) ''tagging'' \<noteq> None
      then andthen (yield (getitem (data request) ''tagging'')) (\<lambda>tagging.
           andthen (yield (first_item tagging)) (\<lambda>tagging0.
           andthen (yield (items tagging0)) (\<lambda>kvs.
             (let tag_names = map fst (filter (\<lambda>(n, v). truthy v) kvs)
              in set_tag_names env episode tag_names (user request)))))
      else yield (Inr ()))"

definition admit_and_respond ::
  "'z env \<Rightarrow> request \<Rightarrow> episode \<Rightarrow> 'z state_scheme \<Rightarrow> (exn + response) \<times> 'z state_scheme" where
  "admit_and_respond env request episode st =
     (let serialised = to_dict env st episode (user request) False;
          st' = st\<lparr>glossolalia := glossolalia st @ [Admit serialised]\<rparr>
      in (Inr (build_json_response env serialised (Some 201)), st'))"

text \<open>\<^verbatim>\<open>episode_list_and_create_view(request)\<close>, the function and the function under its
  decorator.\<close>

definition episode_list_and_create_view_func ::
  "'z env \<Rightarrow> request \<Rightarrow> 'z state_scheme \<Rightarrow> (exn + response) \<times> 'z state_scheme" where
  "episode_list_and_create_view_func env request =
     (if http_method request = ''GET''
      then (\<lambda>st. let serialised = serialised_active env st (user request) []
                 in (Inr (build_json_response env serialised None), st))
      else if http_method request = ''POST''
      then
        andthen (find_patient env request) (\<lambda>patient_pk. \<lambda>st.
          (case create_and_update env request patient_pk st of
             (Inl e, st1) \<Rightarrow>
               (if e = APIError
                then (Inr (build_json_response env
                             (JDict [(''error'', JStr ''Patient already has active episode'')])
                             (Some 400)), st1)
                else (Inl e, st1))
           | (Inr episode, st1) \<Rightarrow>
               andthen (update_location env request episode) (\<lambda>_.
               andthen (set_tags env request episode) (\<lambda>_.
                 admit_and_respond env request episode)) st1))
      else yield (Inl ValueError))"

definition episode_list_and_create_view ::
  "'z env \<Rightarrow> request \<Rightarrow> 'z state_scheme \<Rightarrow> (exn + response) \<times> 'z state_scheme" where
  "episode_list_and_create_view env =
     require_http_methods [''GET'', ''POST''] (episode_list_and_create_view_func env)"

text \<open>\<^verbatim>\<open>EpisodeListView.get\<close>: first the dictionary \<^verbatim>\<open>filter_kwargs\<close> it builds, then
  the method.\<close>

definition filter_kwargs ::
  "request \<Rightarrow> (string \<rightharpoonup> string) \<Rightarrow> (string \<times> filter_value) list" where
  "filter_kwargs self_request kwargs =
     (let tag = kwargs ''tag''; subtag = kwargs ''subtag'';
          fk = [];
          fk = (case (case subtag of None \<Rightarrow> None | Some s \<Rightarrow> if s \<noteq> [] then Some s else None) of
                  Some s \<Rightarrow> AList.update ''tagging__team__name'' (Name s) fk
                | None \<Rightarrow>
                   (case (case tag of None \<Rightarrow> None | Some t \<Rightarrow> if t \<noteq> [] then Some t else None) of
                      Some t \<Rightarrow> AList.update ''tagging__team__name'' (Name t) fk
                    | None \<Rightarrow> fk));
          fk = (if tag = Some ''mine''
                then AList.update ''tagging__user'' (User (user self_request)) fk
                else fk)
      in fk)"

definition EpisodeListView_get ::
  "'z env \<Rightarrow> request \<Rightarrow> (string \<rightharpoonup> string) \<Rightarrow> 'z state_scheme
     \<Rightarrow> (exn + response) \<times> 'z state_scheme" where
  "EpisodeListView_get env self_request kwargs st =
     (let serialised = serialised_active env st (user self_request)
                         (filter_kwargs self_request kwargs)
      in (Inr (build_json_response env serialised None), st))"

text \<open>\<^verbatim>\<open>EpisodeCopyToCategoryView.post\<close>. The inner loop of the method, for one
  subrecord model: every row \<^verbatim>\<open>sub.objects.filter(episode=old)\<close> returns is saved again
  without primary key and with the new episode.\<close>

definition copy_items :: "episode \<Rightarrow> episode \<Rightarrow> item list \<Rightarrow> item list" where
  "copy_items old new rows =
     foldl (\<lambda>rows i. snd (save_item (i\<lparr>item_pk := None, item_episode := episode_pk new\<rparr>) rows))
       rows (filter (\<lambda>i. item_episode i = episode_pk old) rows)"

definition copy_subrecord :: "episode \<Rightarrow> episode \<Rightarrow> subrecord \<Rightarrow> subrecord" where
  "copy_subrecord old new sub =
     (if col_is_singleton (model sub) then sub
      else sub\<lparr>objects := copy_items old new (objects sub)\<rparr>)"

definition EpisodeCopyToCategoryView_post ::
  "'z env \<Rightarrow> request \<Rightarrow> nat \<Rightarrow> string \<Rightarrow> 'z state_scheme
     \<Rightarrow> (exn + response) \<times> 'z state_scheme" where
  "EpisodeCopyToCategoryView_post env self_request pk new_category st =
     (case episode_get (episodes st) pk of
        None \<Rightarrow> (Inl DoesNotExist, st)
      | Some old \<Rightarrow>
          (let new = \<lparr>episode_pk = None, patient = patient old, category = new_category,
                      date_of_admission = date_of_admission old\<rparr>;
               (new, rows) = save_episode new (episodes st);
               st1 = st\<lparr>episodes := rows\<rparr>;
               st2 = st1\<lparr>subrecords := map (copy_subrecord old new) (subrecords st1)\<rparr>;
               serialised = to_dict env st2 new (user self_request) False;
               st3 = st2\<lparr>glossolalia := glossolalia st2 @ [Admit serialised]\<rparr>
           in (Inr (build_json_response env serialised None), st3)))"

text \<open>\<^verbatim>\<open>patient_search_view(request)\<close>, the function and the function under its two
  decorators.\<close>

definition patient_search_view_func ::
  "'z env \<Rightarrow> request \<Rightarrow> 'z state_scheme \<Rightarrow> (exn + response) \<times> 'z state_scheme" where
  "patient_search_view_func env request st =
     (let G = GET request;
          search_terms = [];
          filter_dict = [];
          (search_terms, filter_dict) =
             (case G ''hospital_number'' of
                Some v \<Rightarrow> (AList.update ''hospital_number'' v search_terms,
                           AList.update ''demographics__hospital_number__iexact'' v filter_dict)
              | None \<Rightarrow> (search_terms, filter_dict));
          (search_terms, filter_dict) =
             (case G ''name'' of
                Some v \<Rightarrow> (AList.update ''name'' v search_terms,
                           AList.update ''demographics__name__icontains'' v filter_dict)
              | None \<Rightarrow> (search_terms, filter_dict))
      in if filter_dict \<noteq> []
         then (let patients = patient_filter env st filter_dict ''demographics__date_of_birth''
               in (Inr (build_json_response env
                          (JList (map (\<lambda>p. patient_to_dict env st p (user request)) patients))
                          None), st))
         else (Inr (build_json_response env (JDict [(''error'', JStr ''No search terms'')])
                      (Some 400)), st))"

definition patient_search_view ::
  "'z env \<Rightarrow> request \<Rightarrow> 'z state_scheme \<Rightarrow> (exn + response) \<times> 'z state_scheme" where
  "patient_search_view env =
     with_no_caching env (require_http_methods [''GET''] (patient_search_view_func env))"

subsection \<open>Template views\<close>

text \<open>\<^verbatim>\<open>select_template(names).name\<close>: the first name the loader finds.\<close>

definition select_template :: "'z env \<Rightarrow> string list \<Rightarrow> exn + string" where
  "select_template env names =
     (case find (template_exists env) names of
        None \<Rightarrow> Inl TemplateDoesNotExist
      | Some n \<Rightarrow> Inr n)"

text \<open>The list \<^verbatim>\<open>header_templates\<close> of \<^verbatim>\<open>_get_column_context\<close> for a column of
  underscore name \<open>name\<close>; \<^verbatim>\<open>insert(0, x)\<close> is \<open>x # _\<close>.\<close>

definition header_templates :: "string \<Rightarrow> (string \<rightharpoonup> string) \<Rightarrow> string list" where
  "header_templates name kwargs =
     (let hs = [name @ ''_header.html'']
      in case kwargs ''tag'' of
           None \<Rightarrow> hs
         | Some tag \<Rightarrow>
             (let hs = (''list_display/'' @ tag @ ''/'' @ name @ ''_header.html'') # hs
              in case kwargs ''subtag'' of
                   None \<Rightarrow> hs
                 | Some subtag \<Rightarrow>
                     (''list_display/'' @ tag @ ''/'' @ subtag @ ''/'' @ name @ ''_header.html'')
                       # hs))"

text \<open>The \<^verbatim>\<open>try\<close> statement of \<^verbatim>\<open>_get_column_context\<close>: the header template, the
  empty string when the loader raises \<open>TemplateDoesNotExist\<close>.\<close>

definition header_template_path :: "'z env \<Rightarrow> string list \<Rightarrow> exn + string" where
  "header_template_path env hs =
     (case select_template env hs of
        Inl e \<Rightarrow> if e = TemplateDoesNotExist then Inr [] else Inl e
      | Inr h \<Rightarrow> Inr h)"

text \<open>The body of the loop of \<^verbatim>\<open>_get_column_context\<close>: the dictionary
  \<^verbatim>\<open>column_context\<close> of one column, its entries in the order they are assigned.\<close>

definition column_context ::
  "'z env \<Rightarrow> (string \<rightharpoonup> string) \<Rightarrow> column \<Rightarrow> exn + (string \<times> json) list" where
  "column_context env kwargs col =
     (let name = camelcase_to_underscore env (col_name col);
          title_default = JStr (title (replace_underscores name));
          hs = header_templates name kwargs;
          template_path = get_display_template env col (kwargs ''tag'') (kwargs ''subtag'')
      in case select_template env
                [name @ ''_detail.html'', name @ ''.html'', ''records/'' @ name @ ''.html''] of
           Inl e \<Rightarrow> Inl e
         | Inr detail \<Rightarrow>
             (case header_template_path env hs of
                Inl e \<Rightarrow> Inl e
              | Inr header \<Rightarrow>
                  Inr [(''name'', JStr name),
                       (''title'', (case col_title col of None \<Rightarrow> title_default | Some t \<Rightarrow> t)),
                       (''single'', JBool (col_is_singleton col)),
                       (''icon'', (case col_icon col of None \<Rightarrow> JStr [] | Some i \<Rightarrow> i)),
                       (''list_limit'',
                          (case col_list_limit col of None \<Rightarrow> JNull | Some l \<Rightarrow> l)),
                       (''batch_template'',
                          (case col_batch_template col of None \<Rightarrow> JNull | Some b \<Rightarrow> b)),
                       (''template_path'', template_path),
                       (''detail_template_path'', JStr detail),
                       (''header_template_path'', JStr header)]))"

text \<open>\<^verbatim>\<open>_get_column_context(schema, **kwargs)\<close>: the loop, with \<open>context\<close> the list built
  so far.\<close>

fun get_column_context_loop ::
  "'z env \<Rightarrow> (string \<rightharpoonup> string) \<Rightarrow> (string \<times> json) list list \<Rightarrow> column list
     \<Rightarrow> exn + (string \<times> json) list list" where
  "get_column_context_loop env kwargs context [] = Inr context"
| "get_column_context_loop env kwargs context (col # cols) =
     (case column_context env kwargs col of
        Inl e \<Rightarrow> Inl e
      | Inr c \<Rightarrow> get_column_context_loop env kwargs (context @ [c]) cols)"

definition private_get_column_context ::
  "'z env \<Rightarrow> column list \<Rightarrow> (string \<rightharpoonup> string) \<Rightarrow> exn + (string \<times> json) list list" where
  "private_get_column_context env schema kwargs = get_column_context_loop env kwargs [] schema"

text \<open>\<^verbatim>\<open>EpisodeTemplateView.get_column_context\<close>. Iterating a dictionary gives its
  keys, and a string has no \<^verbatim>\<open>__name__\<close>.\<close>

definition get_column_context ::
  "'z env \<Rightarrow> (string \<times> schemas) list \<Rightarrow> schemas \<Rightarrow> (string \<rightharpoonup> string)
     \<Rightarrow> exn + (string \<times> json) list list" where
  "get_column_context env L self_column_schema kwargs =
     (case active_schema L self_column_schema kwargs of
        Inl e \<Rightarrow> Inl e
      | Inr (Columns cs) \<Rightarrow> private_get_column_context env cs kwargs
      | Inr (Teams d) \<Rightarrow> (if d = [] then Inr [] else Inl AttributeError))"

subsection \<open>Vocabulary for the column context\<close>




subsection \<open>Example data\<close>

text \<open>A small database and one choice of collaborators, for evaluating the handlers on
  concrete requests. \<open>example_env\<close> refuses an update that carries the consistency token
  \<^verbatim>\<open>'stale'\<close> with \<open>ConsistencyError\<close> and one that carries an unknown field with
  \<open>APIError\<close>; it refuses a second episode for a patient with \<open>APIError\<close>.\<close>

definition Location :: column where
  "Location = \<lparr>col_name = ''Location'', col_is_singleton = True,
     col_title = None, col_icon = Some (JStr ''fa fa-map-marker''),
     col_list_limit = None, col_batch_template = None\<rparr>"


definition Diagnosis :: column where
  "Diagnosis = \<lparr>col_name = ''Diagnosis'', col_is_singleton = False,
     col_title = Some (JStr ''Diagnosis / Issues''), col_icon = None,
     col_list_limit = None, col_batch_template = None\<rparr>"

definition example_state :: state where
  "example_state =
     \<lparr>episodes =
        [\<lparr>episode_pk = Some 3, patient = 7, category = ''Inpatient'',
          date_of_admission = JStr ''2014-01-02''\<rparr>,
         \<lparr>episode_pk = Some 4, patient = 8, category = ''Outpatient'',
          date_of_admission = JNull\<rparr>],
      subrecords =
        [\<lparr>model = Location,
          objects = [\<lparr>item_pk = Some 6, item_episode = Some 3,
                      item_fields = [(''ward'', JStr ''T8'')]\<rparr>,
                     \<lparr>item_pk = Some 7, item_episode = Some 4,
                      item_fields = [(''ward'', JStr ''T9'')]\<rparr>]\<rparr>,
         \<lparr>model = Diagnosis,
          objects = [\<lparr>item_pk = Some 6, item_episode = Some 3,
                      item_fields = [(''condition'', JStr ''CAP'')]\<rparr>,
                     \<lparr>item_pk = Some 7, item_episode = Some 4,
                      item_fields = [(''condition'', JStr ''UTI'')]\<rparr>,
                     \<lparr>item_pk = Some 9, item_episode = Some 3,
                      item_fields = [(''condition'', JStr ''AKI'')]\<rparr>]\<rparr>],
      glossolalia = []\<rparr>"

definition example_fieldnames :: "string list" where
  "example_fieldnames = [''consistency_token'', ''category'', ''date_of_admission'']"

definition example_to_dict :: "state \<Rightarrow> episode \<Rightarrow> string \<Rightarrow> bool \<Rightarrow> json" where
  "example_to_dict st e u shallow =
     JDict ([(''id'', (case episode_pk e of None \<Rightarrow> JNull | Some k \<Rightarrow> JInt (int k))),
             (''category'', JStr (category e)),
             (''date_of_admission'', date_of_admission e)] @
            (if shallow then []
             else [(''rows'', JInt (int (length (concat (map (\<lambda>sub.
                      filter (\<lambda>i. item_episode i = episode_pk e) (objects sub))
                      (subrecords st))))))]))"

definition example_update_from_dict ::
  "episode \<Rightarrow> (string \<times> json) list \<Rightarrow> string \<Rightarrow> state \<Rightarrow> (exn + episode) \<times> state" where
  "example_update_from_dict e d u st =
     (if map_of d ''consistency_token'' = Some (JStr ''stale'') then (Inl ConsistencyError, st)
      else if \<not> list_all (\<lambda>(k, v). k \<in> set example_fieldnames) d then (Inl APIError, st)
      else (let e' = (case map_of d ''category'' of
                        Some (JStr c) \<Rightarrow> e\<lparr>category := c\<rparr>
                      | _ \<Rightarrow> e);
                (e', rows) = save_episode e' (episodes st)
            in (Inr e', st\<lparr>episodes := rows\<rparr>)))"

definition example_create_episode :: "nat \<Rightarrow> state \<Rightarrow> (exn + episode) \<times> state" where
  "example_create_episode p st =
     (if list_ex (\<lambda>e. patient e = p) (episodes st) then (Inl APIError, st)
      else (let (e, rows) = save_episode \<lparr>episode_pk = None, patient = p,
                               category = ''inpatient'', date_of_admission = JNull\<rparr>
                              (episodes st)
            in (Inr e, st\<lparr>episodes := rows\<rparr>)))"

definition example_env :: "unit env" where
  "example_env =
     \<lparr>default_status_code = 200,
      json_headers = [(''Content-Type'', ''application/json'')],
      no_caching_headers = (\<lambda>hs. hs @ [(''Cache-Control'', ''no-cache'')]),
      camelcase_to_underscore = lower,
      get_display_template = (\<lambda>col team subteam. JStr (''records/'' @ lower (col_name col) @ ''.html'')),
      template_exists = (\<lambda>n. n \<in> set [''records/location.html'', ''records/diagnosis.html'',
                                         ''location_header.html'',
                                         ''list_display/micro/location_header.html'',
                                         ''records/past_medical_history.html'']),
      to_dict = example_to_dict,
      patient_to_dict = (\<lambda>st p u. JDict [(''id'', JInt (int p))]),
      serialised_active = (\<lambda>st u fs. JList (map (\<lambda>e. example_to_dict st e u False) (episodes st))),
      patient_filter = (\<lambda>st fs order. remdups (map patient (episodes st))),
      update_from_dict = example_update_from_dict,
      get_or_create = (\<lambda>hn st. (Inr (if hn = JStr ''007'' then 7 else 9), st)),
      patient_create = (\<lambda>st. (Inr 10, st)),
      update_from_demographics_dict = (\<lambda>p d u st. (Inr (), st)),
      create_episode = example_create_episode,
      get_fieldnames_to_serialize = example_fieldnames,
      location_set_get = (\<lambda>st e. Inr \<lparr>item_pk = Some 8, item_episode = episode_pk e,
                                        item_fields = []\<rparr>),
      location_update_from_dict = (\<lambda>i d u st. (Inr (), st)),
      set_tag_names = (\<lambda>e names u st. (Inr (), st))\<rparr>"

definition example_request :: request where
  "example_request = \<lparr>http_method = ''GET'', user = ''jane'', GET = Map.empty, data = []\<rparr>"

definition example_post :: "(string \<times> json) list \<Rightarrow> request" where
  "example_post d = \<lparr>http_method = ''POST'', user = ''jane'', GET = Map.empty, data = d\<rparr>"





section \<open>Properties\<close>

subsection \<open>Lower-casing\<close>

lemma of_char_lower_code_point:
  "is_capital c \<Longrightarrow> (of_char (lower_code_point c) :: nat) = of_char c + 32"
  by (auto simp add: lower_code_point_def is_capital_def is_upper_def)

lemma lower_code_point_not_capital: "\<not> is_capital (lower_code_point c)"
proof (cases "is_capital c")
  case True
  then show ?thesis
    using of_char_lower_code_point [OF True]
    by (auto simp add: is_capital_def is_upper_def)
next
  case False
  then show ?thesis by (simp add: lower_code_point_def)
qed

lemma lower_code_point_ascii: "is_ascii (lower_code_point c) = is_ascii c"
proof (cases "is_capital c")
  case True
  then show ?thesis
    using of_char_lower_code_point [OF True]
    by (auto simp add: is_capital_def is_upper_def is_ascii_def)
next
  case False
  then show ?thesis by (simp add: lower_code_point_def)
qed

lemma lower_no_capital: "list_all (\<lambda>c. \<not> is_capital c) (lower s)"
  by (induction s) (simp_all add: lower_def lower_code_point_not_capital)

lemma lower_ascii: "list_all is_ascii (lower s) = list_all is_ascii s"
  by (induction s) (simp_all add: lower_def lower_code_point_ascii)

lemma lower_pointwise:
  "list_all2 (\<lambda>c c'. c' = (if is_capital c then char_of ((of_char c :: nat) + 32) else c))
     s (lower s)"
  by (induction s) (simp_all add: lower_def lower_code_point_def)

lemma ascii_capital: "is_ascii c \<Longrightarrow> is_capital c = is_upper c"
  by (auto simp add: is_ascii_def is_capital_def)

lemma lower_pointwise_ascii:
  "list_all is_ascii s \<Longrightarrow>
     list_all2 (\<lambda>c c'. c' = (if is_upper c then char_of ((of_char c :: nat) + 32) else c))
       s (lower s)"
  by (induction s) (simp_all add: lower_def lower_code_point_def ascii_capital)

subsection \<open>Detail template names\<close>

text \<open>
  Claim C3, amended. For every episode whose category in lower case is ASCII text,
  \<^verbatim>\<open>EpisodeDetailTemplateView.get_template_names\<close> returns exactly the two names
  \<^verbatim>\<open>detail/<c>.html\<close> and \<^verbatim>\<open>detail/default.html\<close>, in that order, where \<^verbatim>\<open><c>\<close>
  is the category in lower case: as long as the category, without capital letter, and
  different from the category only where that has a capital letter, replaced by its
  lower-case letter. When the category in lower case has a character outside ASCII (below
  code point 256: when the category has one), the method raises \<open>UnicodeEncodeError\<close>:
  the module is Python 2 code and formats the text into a byte string. (A Python 3
  interpreter would return the two names for every category.)
\<close>

theorem get_template_names_convention:
  "(list_all is_ascii (lower (category e)) \<or> py = Python3 \<longrightarrow>
      get_template_names py e =
        Inr [''detail/'' @ lower (category e) @ ''.html'', ''detail/default.html''])
   \<and> (py = Python2 \<and> \<not> list_all is_ascii (lower (category e)) \<longrightarrow>
        get_template_names py e = Inl UnicodeEncodeError)
   \<and> list_all is_ascii (lower (category e)) = list_all is_ascii (category e)
   \<and> length (lower (category e)) = length (category e)
   \<and> list_all (\<lambda>c. \<not> is_capital c) (lower (category e))
   \<and> list_all2 (\<lambda>c c'. c' = (if is_capital c then char_of ((of_char c :: nat) + 32) else c))
        (category e) (lower (category e))
   \<and> (list_all is_ascii (category e) \<longrightarrow>
        list_all2 (\<lambda>c c'. c' = (if is_upper c then char_of ((of_char c :: nat) + 32) else c))
          (category e) (lower (category e)))"
proof -
  have a: "get_template_names py e =
        Inr [''detail/'' @ lower (category e) @ ''.html'', ''detail/default.html'']"
    if "list_all is_ascii (lower (category e)) \<or> py = Python3"
    using that by (auto simp add: get_template_names_def format_text_def)
  have b: "get_template_names py e = Inl UnicodeEncodeError"
    if "py = Python2 \<and> \<not> list_all is_ascii (lower (category e))"
    using that by (simp add: get_template_names_def format_text_def)
  have c: "length (lower (category e)) = length (category e)"
    by (simp add: lower_def)
  from a b c show ?thesis
    using lower_no_capital [of "category e"] lower_pointwise [of "category e"]
      lower_pointwise_ascii [of "category e"] lower_ascii [of "category e"]
    by blast
qed

text \<open>The category \<^verbatim>\<open>Ecole\<close> with its first letter U+00C9: the lower-cased text
  starts with U+00E9, and no list of names is returned.\<close>

theorem get_template_names_convention_counterexample:
  "lower (CHR 0xC9 # ''cole'') = CHR 0xE9 # ''cole''
   \<and> get_template_names Python2
        \<lparr>episode_pk = Some 3, patient = 7, category = CHR 0xC9 # ''cole'',
         date_of_admission = JNull\<rparr> = Inl UnicodeEncodeError"
proof -
  have l: "lower (CHR 0xC9 # ''cole'') = CHR 0xE9 # ''cole''"
    by code_simp
  have "\<not> list_all is_ascii (CHR 0xE9 # ''cole'')"
    by (simp add: is_ascii_def)
  with l show ?thesis
    by (simp add: get_template_names_def format_text_def)
qed

theorem get_template_names_convention_witness:
  "list_all is_ascii (category (hd (episodes example_state)))
   \<and> get_template_names Python2 (hd (episodes example_state)) =
       Inr [''detail/inpatient.html'', ''detail/default.html'']
   \<and> get_template_names Python3
        \<lparr>episode_pk = Some 3, patient = 7, category = CHR 0xC9 # ''cole'',
         date_of_admission = JNull\<rparr> =
       Inr [''detail/'' @ CHR 0xE9 # ''cole.html'', ''detail/default.html'']
   \<and> \<not> list_all is_ascii (CHR 0xC9 # ''cole'')
   \<and> get_template_names Python2
        \<lparr>episode_pk = Some 3, patient = 7, category = CHR 0xC9 # ''cole'',
         date_of_admission = JNull\<rparr> = Inl UnicodeEncodeError"
proof -
  let ?ecole = "\<lparr>episode_pk = Some 3, patient = 7, category = CHR 0xC9 # ''cole'',
                 date_of_admission = JNull\<rparr>"
  have l: "lower ''Inpatient'' = ''inpatient''" "lower (CHR 0xC9 # ''cole'') = CHR 0xE9 # ''cole''"
    by code_simp+
  have c: "category (hd (episodes example_state)) = ''Inpatient''"
    by (simp add: example_state_def)
  have a: "list_all is_ascii (category (hd (episodes example_state)))"
    unfolding c by (simp add: is_ascii_def)
  have n: "\<not> list_all is_ascii (category ?ecole)"
    by (simp add: is_ascii_def)
  have w1: "get_template_names Python2 (hd (episodes example_state)) =
       Inr [''detail/inpatient.html'', ''detail/default.html'']"
    using get_template_names_convention [of "hd (episodes example_state)" Python2] a
    by (simp add: c l is_ascii_def)
  have w2: "get_template_names Python3 ?ecole =
       Inr [''detail/'' @ CHR 0xE9 # ''cole.html'', ''detail/default.html'']"
    using get_template_names_convention [of ?ecole Python3]
    by (simp add: l)
  have w3: "get_template_names Python2 ?ecole = Inl UnicodeEncodeError"
    using get_template_names_convention [of ?ecole Python2] n
    by (simp add: l is_ascii_def)
  from a n w1 w2 w3 show ?thesis
    by simp
qed

subsection \<open>Reading one episode\<close>

text \<open>
  Claim C7. A GET request to \<^verbatim>\<open>episode_detail_view\<close> whose \<open>pk\<close> names an existing
  episode is answered with the JSON serialisation \<^verbatim>\<open>episode.to_dict(request.user)\<close> of
  that episode, under the default status code, and the state (the stored episode with it)
  is the one before the request.
\<close>

theorem episode_detail_get:
  assumes "http_method request = ''GET''"
    and "episode_get (episodes st) pk = Some episode"
  shows "episode_detail_view env request pk st =
           (Inr \<lparr>status_code = default_status_code env,
                 content = Some (to_dict env st episode (user request) False),
                 headers = json_headers env\<rparr>, st)"
  using assms
  by (simp add: episode_detail_view_def require_http_methods_def
      episode_detail_view_func_def build_json_response_def)

theorem episode_detail_get_witness:
  "http_method example_request = ''GET''
   \<and> episode_get (episodes example_state) 3 = Some (hd (episodes example_state))
   \<and> episode_detail_view example_env example_request 3 example_state =
       (Inr \<lparr>status_code = 200,
             content = Some (JDict [(''id'', JInt 3), (''category'', JStr ''Inpatient''),
                                    (''date_of_admission'', JStr ''2014-01-02''),
                                    (''rows'', JInt 3)]),
             headers = [(''Content-Type'', ''application/json'')]\<rparr>, example_state)"
proof -
  have m: "http_method example_request = ''GET''"
    by (simp add: example_request_def)
  have g: "episode_get (episodes example_state) 3 = Some (hd (episodes example_state))"
    by (simp add: example_state_def episode_get_def)
  have t: "to_dict example_env example_state (hd (episodes example_state)) (user example_request) False
           = JDict [(''id'', JInt 3), (''category'', JStr ''Inpatient''),
                                    (''date_of_admission'', JStr ''2014-01-02''),
                                    (''rows'', JInt 3)]"
    by (simp add: example_env_def example_to_dict_def example_state_def)
  show ?thesis
    using episode_detail_get [OF m g, of example_env] m g t
    by (simp add: example_env_def)
qed

text \<open>
  Claim C8. A GET or PUT request to \<^verbatim>\<open>episode_detail_view\<close> whose \<open>pk\<close> names no
  episode is answered with 404 Not Found, and the state is the one before the request: no
  record is created or modified.
\<close>

theorem episode_detail_not_found:
  assumes "http_method request = ''GET'' \<or> http_method request = ''PUT''"
    and "episode_get (episodes st) pk = None"
  shows "episode_detail_view env request pk st = (Inr HttpResponseNotFound, st)
         \<and> status_code HttpResponseNotFound = 404"
  using assms
  by (auto simp add: episode_detail_view_def require_http_methods_def
      episode_detail_view_func_def HttpResponseNotFound_def)

theorem episode_detail_not_found_witness:
  "(http_method (example_request\<lparr>http_method := ''PUT''\<rparr>) = ''GET''
      \<or> http_method (example_request\<lparr>http_method := ''PUT''\<rparr>) = ''PUT'')
   \<and> episode_get (episodes example_state) 5 = None
   \<and> episode_detail_view example_env (example_request\<lparr>http_method := ''PUT''\<rparr>) 5 example_state =
       (Inr \<lparr>status_code = 404, content = None, headers = []\<rparr>, example_state)"
proof -
  have m: "http_method (example_request\<lparr>http_method := ''PUT''\<rparr>) = ''GET''
      \<or> http_method (example_request\<lparr>http_method := ''PUT''\<rparr>) = ''PUT''"
    by simp
  have g: "episode_get (episodes example_state) 5 = None"
    by (simp add: example_state_def episode_get_def)
  show ?thesis
    using episode_detail_not_found [OF m g, of example_env] m g
    by (simp add: HttpResponseNotFound_def)
qed

subsection \<open>Updating one episode\<close>

text \<open>
  Claim C1, amended. For a PUT request to \<^verbatim>\<open>episode_detail_view\<close> on an existing
  episode: if \<^verbatim>\<open>update_from_dict\<close> raises \<open>ConsistencyError\<close>, the response is the JSON
  body \<^verbatim>\<open>{'error': 'Item has changed'}\<close> with status 409; if \<^verbatim>\<open>update_from_dict\<close>
  returns, the response is the shallow serialisation of the updated episode with the
  default status code, and the change is reported to glossolalia; if it raises any other
  exception, the view raises that exception and gives no response.
\<close>

theorem episode_detail_put:
  assumes "http_method request = ''PUT''"
    and "episode_get (episodes st) pk = Some episode"
  shows "(update_from_dict env episode (data request) (user request) st = (Inl ConsistencyError, st1)
            \<longrightarrow> episode_detail_view env request pk st =
                  (Inr \<lparr>status_code = 409,
                        content = Some (JDict [(''error'', JStr ''Item has changed'')]),
                        headers = json_headers env\<rparr>, st1))
       \<and> (update_from_dict env episode (data request) (user request) st = (Inr episode1, st1)
            \<longrightarrow> episode_detail_view env request pk st =
                  (let pre = to_dict env st episode (user request) False;
                       post = to_dict env st1 episode1 (user request) False;
                       st2 = st1\<lparr>glossolalia := glossolalia st1 @ [Change pre post]\<rparr>
                   in (Inr \<lparr>status_code = default_status_code env,
                            content = Some (to_dict env st2 episode1 (user request) True),
                            headers = json_headers env\<rparr>, st2)))
       \<and> (update_from_dict env episode (data request) (user request) st = (Inl e, st1)
              \<and> e \<noteq> ConsistencyError
            \<longrightarrow> episode_detail_view env request pk st = (Inl e, st1))"
  using assms
  by (simp add: episode_detail_view_def require_http_methods_def
      episode_detail_view_func_def build_json_response_def Let_def)

lemma example_episode_3:
  "episode_get (episodes example_state) 3 =
     Some \<lparr>episode_pk = Some 3, patient = 7, category = ''Inpatient'',
           date_of_admission = JStr ''2014-01-02''\<rparr>"
  by (simp add: example_state_def episode_get_def)

lemma example_update_stale:
  "update_from_dict example_env e [(''consistency_token'', JStr ''stale'')] u st =
     (Inl ConsistencyError, st)"
  by (simp add: example_env_def example_update_from_dict_def)

lemma example_update_unknown_field:
  "update_from_dict example_env e [(''nonsense'', JInt 1)] u st = (Inl APIError, st)"
  by (simp add: example_env_def example_update_from_dict_def example_fieldnames_def)

lemma example_update_category:
  "fst (update_from_dict example_env
          \<lparr>episode_pk = Some 3, patient = 7, category = ''Inpatient'',
           date_of_admission = JStr ''2014-01-02''\<rparr>
          [(''category'', JStr ''Day case'')] u st) =
     Inr \<lparr>episode_pk = Some 3, patient = 7, category = ''Day case'',
          date_of_admission = JStr ''2014-01-02''\<rparr>"
  by (simp add: example_env_def example_update_from_dict_def example_fieldnames_def
      save_episode_def Let_def)

text \<open>An update that raises \<open>APIError\<close>, not \<open>ConsistencyError\<close>, gets no response at
  all.\<close>

theorem episode_detail_put_counterexample:
  "update_from_dict example_env
     \<lparr>episode_pk = Some 3, patient = 7, category = ''Inpatient'',
      date_of_admission = JStr ''2014-01-02''\<rparr>
     [(''nonsense'', JInt 1)] ''jane'' example_state = (Inl APIError, example_state)
   \<and> episode_detail_view example_env
        \<lparr>http_method = ''PUT'', user = ''jane'', GET = Map.empty, data = [(''nonsense'', JInt 1)]\<rparr>
        3 example_state = (Inl APIError, example_state)"
  by (simp add: episode_detail_view_def require_http_methods_def episode_detail_view_func_def
      example_episode_3 example_update_unknown_field)

theorem episode_detail_put_witness:
  "http_method (example_request\<lparr>http_method := ''PUT''\<rparr>) = ''PUT''
   \<and> episode_get (episodes example_state) 3 \<noteq> None
   \<and> episode_detail_view example_env
        (example_request\<lparr>http_method := ''PUT'',
                          data := [(''consistency_token'', JStr ''stale'')]\<rparr>) 3 example_state =
       (Inr \<lparr>status_code = 409,
             content = Some (JDict [(''error'', JStr ''Item has changed'')]),
             headers = [(''Content-Type'', ''application/json'')]\<rparr>, example_state)
   \<and> fst (episode_detail_view example_env
        (example_request\<lparr>http_method := ''PUT'',
                          data := [(''category'', JStr ''Day case'')]\<rparr>) 3 example_state) =
       Inr \<lparr>status_code = 200,
            content = Some (JDict [(''id'', JInt 3), (''category'', JStr ''Day case''),
                                   (''date_of_admission'', JStr ''2014-01-02'')]),
            headers = [(''Content-Type'', ''application/json'')]\<rparr>
   \<and> episode_detail_view example_env
        (example_request\<lparr>http_method := ''PUT'', data := [(''nonsense'', JInt 1)]\<rparr>)
        3 example_state = (Inl APIError, example_state)"
proof -
  let ?e = "\<lparr>episode_pk = Some 3, patient = 7, category = ''Inpatient'',
             date_of_admission = JStr ''2014-01-02''\<rparr>"
  let ?e1 = "\<lparr>episode_pk = Some 3, patient = 7, category = ''Day case'',
             date_of_admission = JStr ''2014-01-02''\<rparr>"
  let ?stale = "example_request\<lparr>http_method := ''PUT'',
                                 data := [(''consistency_token'', JStr ''stale'')]\<rparr>"
  let ?ok = "example_request\<lparr>http_method := ''PUT'', data := [(''category'', JStr ''Day case'')]\<rparr>"
  let ?bad = "example_request\<lparr>http_method := ''PUT'', data := [(''nonsense'', JInt 1)]\<rparr>"
  have a: "episode_detail_view example_env ?stale 3 example_state =
       (Inr \<lparr>status_code = 409,
             content = Some (JDict [(''error'', JStr ''Item has changed'')]),
             headers = json_headers example_env\<rparr>, example_state)"
    using episode_detail_put [where request = ?stale and st = example_state and pk = 3
        and episode = ?e and env = example_env and ?st1.0 = example_state]
    by (simp add: example_episode_3 example_update_stale)
  let ?u = "update_from_dict example_env ?e (data ?ok) (user ?ok) example_state"
  have u: "?u = (Inr ?e1, snd ?u)"
    using example_update_category [of "user ?ok" example_state]
    by (simp add: prod_eq_iff)
  have b: "fst (episode_detail_view example_env ?ok 3 example_state) =
       Inr \<lparr>status_code = 200,
            content = Some (JDict [(''id'', JInt 3), (''category'', JStr ''Day case''),
                                   (''date_of_admission'', JStr ''2014-01-02'')]),
            headers = [(''Content-Type'', ''application/json'')]\<rparr>"
    using episode_detail_put [where request = ?ok and st = example_state and pk = 3
        and episode = ?e and env = example_env and ?st1.0 = "snd ?u" and ?episode1.0 = ?e1] u
    by (simp add: example_episode_3 Let_def) (simp add: example_env_def example_to_dict_def)
  have c: "episode_detail_view example_env ?bad 3 example_state = (Inl APIError, example_state)"
    using episode_detail_put [where request = ?bad and st = example_state and pk = 3
        and episode = ?e and env = example_env and ?st1.0 = example_state and e = APIError]
    by (simp add: example_episode_3 example_update_unknown_field)
  show ?thesis
    using a b c by (simp add: example_episode_3) (simp add: example_env_def)
qed

subsection \<open>Creating an episode\<close>

lemma andthen_Inr: "m st = (Inr x, st') \<Longrightarrow> andthen m f st = f x st'"
  by (simp add: andthen_def)

lemma andthen_Inl: "m st = (Inl e, st') \<Longrightarrow> andthen m f st = (Inl e, st')"
  by (simp add: andthen_def)

lemma andthen_response:
  "andthen m f st = (Inr r, st') \<Longrightarrow> \<exists>x st1. m st = (Inr x, st1) \<and> f x st1 = (Inr r, st')"
  by (auto simp add: andthen_def split: prod.splits sum.splits)

text \<open>
  Claim C5, amended. For a POST request to \<^verbatim>\<open>episode_list_and_create_view\<close> whose
  patient has been found or created: if creating the episode or updating it from the
  request raises \<open>APIError\<close>, the response is the JSON body
  \<^verbatim>\<open>{'error': 'Patient already has active episode'}\<close> with status 400; if no statement
  of the view raises an exception, the response is the JSON serialisation of the new
  episode with status 201; and the view gives no other response than these two.
\<close>

theorem episode_create_post:
  assumes "http_method request = ''POST''"
  shows "(find_patient env request st = (Inr patient_pk, st1)
            \<and> create_and_update env request patient_pk st1 = (Inl APIError, st2)
          \<longrightarrow> episode_list_and_create_view env request st =
                (Inr \<lparr>status_code = 400,
                      content = Some (JDict [(''error'', JStr ''Patient already has active episode'')]),
                      headers = json_headers env\<rparr>, st2))
       \<and> (find_patient env request st = (Inr patient_pk, st1)
            \<and> create_and_update env request patient_pk st1 = (Inr episode, st2)
            \<and> update_location env request episode st2 = (Inr (), st3)
            \<and> set_tags env request episode st3 = (Inr (), st4)
          \<longrightarrow> episode_list_and_create_view env request st =
                (Inr \<lparr>status_code = 201,
                      content = Some (to_dict env st4 episode (user request) False),
                      headers = json_headers env\<rparr>,
                 st4\<lparr>glossolalia := glossolalia st4 @
                        [Admit (to_dict env st4 episode (user request) False)]\<rparr>))
       \<and> (fst (episode_list_and_create_view env request st) = Inr r
          \<longrightarrow> (status_code r = 400
                 \<and> content r = Some (JDict [(''error'', JStr ''Patient already has active episode'')]))
              \<or> (status_code r = 201
                 \<and> (\<exists>episode st'. content r = Some (to_dict env st' episode (user request) False))))"
proof -
  have view: "episode_list_and_create_view env request st =
      andthen (find_patient env request) (\<lambda>patient_pk. \<lambda>st.
          (case create_and_update env request patient_pk st of
             (Inl e, st1) \<Rightarrow>
               (if e = APIError
                then (Inr (build_json_response env
                             (JDict [(''error'', JStr ''Patient already has active episode'')])
                             (Some 400)), st1)
                else (Inl e, st1))
           | (Inr episode, st1) \<Rightarrow>
               andthen (update_location env request episode) (\<lambda>_.
               andthen (set_tags env request episode) (\<lambda>_.
                 admit_and_respond env request episode)) st1)) st"
    using assms
    by (simp add: episode_list_and_create_view_def require_http_methods_def
        episode_list_and_create_view_func_def)
  have a: "episode_list_and_create_view env request st =
                (Inr \<lparr>status_code = 400,
                      content = Some (JDict [(''error'', JStr ''Patient already has active episode'')]),
                      headers = json_headers env\<rparr>, st2)"
    if "find_patient env request st = (Inr patient_pk, st1)"
      and "create_and_update env request patient_pk st1 = (Inl APIError, st2)"
    using that by (simp add: view andthen_Inr build_json_response_def)
  have b: "episode_list_and_create_view env request st =
                (Inr \<lparr>status_code = 201,
                      content = Some (to_dict env st4 episode (user request) False),
                      headers = json_headers env\<rparr>,
                 st4\<lparr>glossolalia := glossolalia st4 @
                        [Admit (to_dict env st4 episode (user request) False)]\<rparr>)"
    if "find_patient env request st = (Inr patient_pk, st1)"
      and "create_and_update env request patient_pk st1 = (Inr episode, st2)"
      and "update_location env request episode st2 = (Inr (), st3)"
      and "set_tags env request episode st3 = (Inr (), st4)"
    using that
    by (simp add: view andthen_Inr admit_and_respond_def build_json_response_def Let_def)
  have c: "(status_code r = 400
                 \<and> content r = Some (JDict [(''error'', JStr ''Patient already has active episode'')]))
              \<or> (status_code r = 201
                 \<and> (\<exists>episode st'. content r = Some (to_dict env st' episode (user request) False)))"
    if r: "fst (episode_list_and_create_view env request st) = Inr r"
  proof -
    obtain st' where "episode_list_and_create_view env request st = (Inr r, st')"
      using r by (cases "episode_list_and_create_view env request st") simp
    then obtain p s1 where p: "find_patient env request st = (Inr p, s1)"
      and rest: "(case create_and_update env request p s1 of
             (Inl e, st1) \<Rightarrow>
               (if e = APIError
                then (Inr (build_json_response env
                             (JDict [(''error'', JStr ''Patient already has active episode'')])
                             (Some 400)), st1)
                else (Inl e, st1))
           | (Inr episode, st1) \<Rightarrow>
               andthen (update_location env request episode) (\<lambda>_.
               andthen (set_tags env request episode) (\<lambda>_.
                 admit_and_respond env request episode)) st1) = (Inr r, st')"
      unfolding view by (blast dest: andthen_response)
    obtain res s2 where cu: "create_and_update env request p s1 = (res, s2)"
      by (cases "create_and_update env request p s1") simp
    show ?thesis
    proof (cases res)
      case (Inl e)
      with rest cu show ?thesis
        by (simp add: build_json_response_def split: if_splits) auto
    next
      case (Inr episode)
      with rest cu have "andthen (update_location env request episode) (\<lambda>_.
               andthen (set_tags env request episode) (\<lambda>_.
                 admit_and_respond env request episode)) s2 = (Inr r, st')"
        by simp
      then obtain s3 s4 where "admit_and_respond env request episode s4 = (Inr r, st')"
        by (blast dest: andthen_response)
      then have "status_code r = 201
          \<and> content r = Some (to_dict env s4 episode (user request) False)"
        by (auto simp add: admit_and_respond_def build_json_response_def Let_def)
      then show ?thesis
        by blast
    qed
  qed
  from a b c show ?thesis by blast
qed

lemma example_find_patient:
  "find_patient example_env
     (example_post ((''demographics'', JDict [(''hospital_number'', JStr hn)]) # d)) st =
   (Inr (if hn = [] then 10 else if hn = ''007'' then 7 else 9), st)"
  by (simp add: find_patient_def andthen_def yield_def getitem_def example_env_def
      example_post_def)

lemma example_create_refused:
  "create_and_update example_env request 7 example_state = (Inl APIError, example_state)"
  by (simp add: create_and_update_def andthen_def example_env_def example_create_episode_def
      example_state_def)

lemma example_create_accepted:
  "fst (create_and_update example_env
          (example_post [(''demographics'', JDict [(''hospital_number'', JStr ''009'')])])
          9 example_state) =
   Inr \<lparr>episode_pk = Some 5, patient = 9, category = ''inpatient'', date_of_admission = JNull\<rparr>"
  by (simp add: create_and_update_def andthen_def example_env_def example_create_episode_def
      example_state_def example_post_def episode_data_def example_fieldnames_def
      example_update_from_dict_def save_episode_def next_pk_def List.map_filter_simps Let_def)

text \<open>A request body without \<^verbatim>\<open>'location'\<close>: no \<open>APIError\<close> is raised, the episode is
  created, and the view raises \<open>KeyError\<close>.\<close>

theorem episode_create_post_counterexample:
  "fst (find_patient example_env
          (example_post [(''demographics'', JDict [(''hospital_number'', JStr ''009'')])])
          example_state) = Inr 9
   \<and> fst (create_and_update example_env
          (example_post [(''demographics'', JDict [(''hospital_number'', JStr ''009'')])])
          9 example_state) =
       Inr \<lparr>episode_pk = Some 5, patient = 9, category = ''inpatient'', date_of_admission = JNull\<rparr>
   \<and> fst (episode_list_and_create_view example_env
          (example_post [(''demographics'', JDict [(''hospital_number'', JStr ''009'')])])
          example_state) = Inl (KeyError ''location'')"
proof -
  let ?r = "example_post [(''demographics'', JDict [(''hospital_number'', JStr ''009'')])]"
  have m: "http_method ?r = ''POST''" "data ?r = [(''demographics'', JDict [(''hospital_number'', JStr ''009'')])]"
    by (simp_all add: example_post_def)
  have f: "find_patient example_env ?r example_state = (Inr 9, example_state)"
    using example_find_patient [of "''009''" "[]" example_state] by simp
  obtain s2 where c: "create_and_update example_env ?r 9 example_state =
      (Inr \<lparr>episode_pk = Some 5, patient = 9, category = ''inpatient'', date_of_admission = JNull\<rparr>, s2)"
    using example_create_accepted by (cases "create_and_update example_env ?r 9 example_state") simp
  have l: "update_location example_env ?r e s2 = (Inl (KeyError ''location''), s2)" for e
    by (simp add: update_location_def andthen_def yield_def getitem_def example_env_def m)
  have "episode_list_and_create_view example_env ?r example_state = (Inl (KeyError ''location''), s2)"
    by (simp add: episode_list_and_create_view_def require_http_methods_def
        episode_list_and_create_view_func_def m andthen_def f c l)
  with f c show ?thesis by simp
qed


theorem episode_create_post_witness:
  "http_method (example_post []) = ''POST''
   \<and> episode_list_and_create_view example_env
        (example_post [(''demographics'', JDict [(''hospital_number'', JStr ''007'')]),
                       (''location'', JDict [])]) example_state =
       (Inr \<lparr>status_code = 400,
             content = Some (JDict [(''error'', JStr ''Patient already has active episode'')]),
             headers = [(''Content-Type'', ''application/json'')]\<rparr>, example_state)
   \<and> fst (episode_list_and_create_view example_env
        (example_post [(''demographics'', JDict [(''hospital_number'', JStr ''009'')]),
                       (''location'', JDict [(''ward'', JStr ''T8'')]),
                       (''tagging'', JList [JDict [(''micro'', JBool True)]])]) example_state) =
       Inr \<lparr>status_code = 201,
            content = Some (JDict [(''id'', JInt 5), (''category'', JStr ''inpatient''),
                                   (''date_of_admission'', JNull), (''rows'', JInt 0)]),
            headers = [(''Content-Type'', ''application/json'')]\<rparr>"
proof -
  let ?refused = "example_post [(''demographics'', JDict [(''hospital_number'', JStr ''007'')]),
                       (''location'', JDict [])]"
  let ?accepted = "example_post [(''demographics'', JDict [(''hospital_number'', JStr ''009'')]),
                       (''location'', JDict [(''ward'', JStr ''T8'')]),
                       (''tagging'', JList [JDict [(''micro'', JBool True)]])]"
  let ?e = "\<lparr>episode_pk = Some 5, patient = 9, category = ''inpatient'',
             date_of_admission = JNull\<rparr>"
  have m: "http_method (example_post d) = ''POST''" for d
    by (simp add: example_post_def)
  have f7: "find_patient example_env ?refused example_state = (Inr 7, example_state)"
    using example_find_patient [of "''007''" _ example_state] by simp
  have a: "episode_list_and_create_view example_env ?refused example_state =
       (Inr \<lparr>status_code = 400,
             content = Some (JDict [(''error'', JStr ''Patient already has active episode'')]),
             headers = json_headers example_env\<rparr>, example_state)"
    using episode_create_post [where request = ?refused and env = example_env
        and st = example_state and patient_pk = 7 and ?st1.0 = example_state
        and ?st2.0 = example_state, OF m] f7 example_create_refused
    by simp
  have f9: "find_patient example_env ?accepted example_state = (Inr 9, example_state)"
    using example_find_patient [of "''009''" _ example_state] by simp
  let ?c = "create_and_update example_env ?accepted 9 example_state"
  have "fst ?c = Inr ?e"
    by (simp add: create_and_update_def andthen_def example_env_def example_create_episode_def
      example_state_def example_post_def episode_data_def example_fieldnames_def
      example_update_from_dict_def save_episode_def next_pk_def List.map_filter_simps Let_def)
  then have c: "?c = (Inr ?e, snd ?c)"
    by (simp add: prod_eq_iff)
  have l: "update_location example_env ?accepted ?e (snd ?c) = (Inr (), snd ?c)"
    by (simp add: update_location_def andthen_def yield_def getitem_def example_env_def
        example_post_def)
  have t: "set_tags example_env ?accepted ?e (snd ?c) = (Inr (), snd ?c)"
    by (simp add: set_tags_def andthen_def yield_def getitem_def example_env_def
        example_post_def)
  have rows: "subrecords (snd ?c) = subrecords example_state"
    by (simp add: create_and_update_def andthen_def example_env_def example_create_episode_def
      example_state_def example_post_def episode_data_def example_fieldnames_def
      example_update_from_dict_def save_episode_def next_pk_def List.map_filter_simps Let_def)
  have d: "to_dict example_env (snd ?c) ?e ''jane'' False =
      JDict [(''id'', JInt 5), (''category'', JStr ''inpatient''),
             (''date_of_admission'', JNull), (''rows'', JInt 0)]"
  proof -
    have "to_dict example_env = example_to_dict"
      by (simp add: example_env_def)
    then show ?thesis
      by (simp add: example_to_dict_def rows) (simp add: example_state_def)
  qed
  have u: "user ?accepted = ''jane''"
    by (simp add: example_post_def)
  have b: "fst (episode_list_and_create_view example_env ?accepted example_state) =
       Inr \<lparr>status_code = 201,
            content = Some (JDict [(''id'', JInt 5), (''category'', JStr ''inpatient''),
                                   (''date_of_admission'', JNull), (''rows'', JInt 0)]),
            headers = json_headers example_env\<rparr>"
    using episode_create_post [where request = ?accepted and env = example_env
        and st = example_state and patient_pk = 9 and ?st1.0 = example_state
        and ?st2.0 = "snd ?c" and episode = ?e and ?st3.0 = "snd ?c" and ?st4.0 = "snd ?c", OF m]
      f9 c l t
    by (simp add: u d)
  show ?thesis
    using a b m by (simp add: example_env_def)
qed

subsection \<open>Resolving the column schema\<close>






subsection \<open>Searching patients\<close>

text \<open>
  Claim C4. A GET request to \<^verbatim>\<open>patient_search_view\<close> is answered with the JSON body
  \<^verbatim>\<open>{'error': 'No search terms'}\<close> and status 400 if and only if neither
  \<^verbatim>\<open>'hospital_number'\<close> nor \<^verbatim>\<open>'name'\<close> is among the query parameters; otherwise the
  answer is the JSON list of the serialisations of the patients that match the filters
  given: the hospital number (case-insensitive match) and the name (case-insensitive
  containment), ordered by date of birth.
\<close>

theorem patient_search_terms:
  assumes "http_method request = ''GET''"
  shows "\<exists>r. patient_search_view env request st = (Inr r, st)
           \<and> ((content r = Some (JDict [(''error'', JStr ''No search terms'')])
                   \<and> status_code r = 400)
                = (GET request ''hospital_number'' = None \<and> GET request ''name'' = None))
           \<and> (GET request ''hospital_number'' \<noteq> None \<or> GET request ''name'' \<noteq> None
                \<longrightarrow> status_code r = default_status_code env
                  \<and> content r = Some (JList (map (\<lambda>p. patient_to_dict env st p (user request))
                       (patient_filter env st
                          ((case GET request ''hospital_number'' of None \<Rightarrow> []
                            | Some v \<Rightarrow> [(''demographics__hospital_number__iexact'', v)]) @
                           (case GET request ''name'' of None \<Rightarrow> []
                            | Some v \<Rightarrow> [(''demographics__name__icontains'', v)]))
                          ''demographics__date_of_birth''))))"
  using assms
  by (auto simp add: patient_search_view_def with_no_caching_def require_http_methods_def
      patient_search_view_func_def build_json_response_def Let_def split: option.splits)

theorem patient_search_terms_witness:
  "http_method example_request = ''GET''
   \<and> patient_search_view example_env example_request example_state =
       (Inr \<lparr>status_code = 400,
             content = Some (JDict [(''error'', JStr ''No search terms'')]),
             headers = [(''Content-Type'', ''application/json''),
                        (''Cache-Control'', ''no-cache'')]\<rparr>, example_state)
   \<and> patient_search_view example_env (example_request\<lparr>GET := [''name'' \<mapsto> ''smith'']\<rparr>)
        example_state =
       (Inr \<lparr>status_code = 200,
             content = Some (JList [JDict [(''id'', JInt 7)], JDict [(''id'', JInt 8)]]),
             headers = [(''Content-Type'', ''application/json''),
                        (''Cache-Control'', ''no-cache'')]\<rparr>, example_state)"
proof -
  have m: "http_method example_request = ''GET''"
    "http_method (example_request\<lparr>GET := [''name'' \<mapsto> ''smith'']\<rparr>) = ''GET''"
    by (simp_all add: example_request_def)
  have h1: "\<exists>c s. patient_search_view example_env request example_state =
       (Inr \<lparr>status_code = s, content = c,
             headers = [(''Content-Type'', ''application/json''),
                        (''Cache-Control'', ''no-cache'')]\<rparr>, example_state)"
    if "http_method request = ''GET''" for request
    using that
    by (auto simp add: patient_search_view_def with_no_caching_def require_http_methods_def
      patient_search_view_func_def build_json_response_def Let_def example_env_def
      split: option.splits)
  obtain r1 where r1: "patient_search_view example_env example_request example_state = (Inr r1, example_state)"
    and e1: "(content r1 = Some (JDict [(''error'', JStr ''No search terms'')])
                   \<and> status_code r1 = 400)
                = (GET example_request ''hospital_number'' = None \<and> GET example_request ''name'' = None)"
    using patient_search_terms [OF m(1), of example_env example_state] by blast
  from e1 have "content r1 = Some (JDict [(''error'', JStr ''No search terms'')])
                   \<and> status_code r1 = 400"
    by (simp add: example_request_def)
  with r1 h1 [OF m(1)]
  have a: "patient_search_view example_env example_request example_state =
       (Inr \<lparr>status_code = 400,
             content = Some (JDict [(''error'', JStr ''No search terms'')]),
             headers = [(''Content-Type'', ''application/json''),
                        (''Cache-Control'', ''no-cache'')]\<rparr>, example_state)"
    by auto
  let ?q = "example_request\<lparr>GET := [''name'' \<mapsto> ''smith'']\<rparr>"
  obtain r2 where r2: "patient_search_view example_env ?q example_state = (Inr r2, example_state)"
    and e2: "GET ?q ''hospital_number'' \<noteq> None \<or> GET ?q ''name'' \<noteq> None
                \<longrightarrow> status_code r2 = default_status_code example_env
                  \<and> content r2 = Some (JList (map (\<lambda>p. patient_to_dict example_env example_state p (user ?q))
                       (patient_filter example_env example_state
                          ((case GET ?q ''hospital_number'' of None \<Rightarrow> []
                            | Some v \<Rightarrow> [(''demographics__hospital_number__iexact'', v)]) @
                           (case GET ?q ''name'' of None \<Rightarrow> []
                            | Some v \<Rightarrow> [(''demographics__name__icontains'', v)]))
                          ''demographics__date_of_birth'')))"
    using patient_search_terms [OF m(2), of example_env example_state] by blast
  from e2 have "status_code r2 = 200
     \<and> content r2 = Some (JList [JDict [(''id'', JInt 7)], JDict [(''id'', JInt 8)]])"
    by (simp add: example_env_def example_state_def)
  with r2 h1 [OF m(2)]
  have b: "patient_search_view example_env ?q example_state =
       (Inr \<lparr>status_code = 200,
             content = Some (JList [JDict [(''id'', JInt 7)], JDict [(''id'', JInt 8)]]),
             headers = [(''Content-Type'', ''application/json''),
                        (''Cache-Control'', ''no-cache'')]\<rparr>, example_state)"
    by auto
  from m a b show ?thesis by simp
qed

subsection \<open>Listing episodes by tag\<close>

text \<open>
  Claim C10. \<^verbatim>\<open>EpisodeListView.get\<close> builds its filter so that the team name is the
  subtag when a subtag is given, otherwise the tag when a tag is given, otherwise there is
  no team filter; when the tag is \<^verbatim>\<open>'mine'\<close>, and only then, the filter also restricts
  to episodes tagged to the requesting user. A tag or subtag is given when it is in
  \<open>kwargs\<close> and is not the empty string. The filter has no other entry, and the response
  is the serialisation of the active episodes under that filter.
\<close>

theorem filter_kwargs_precedence:
  "map_of (filter_kwargs self_request kwargs) ''tagging__team__name'' =
     (case kwargs ''subtag'' of
        Some subtag \<Rightarrow>
          (if subtag \<noteq> [] then Some (Name subtag)
           else (case kwargs ''tag'' of
                   Some tag \<Rightarrow> if tag \<noteq> [] then Some (Name tag) else None
                 | None \<Rightarrow> None))
      | None \<Rightarrow>
          (case kwargs ''tag'' of
             Some tag \<Rightarrow> if tag \<noteq> [] then Some (Name tag) else None
           | None \<Rightarrow> None))
   \<and> map_of (filter_kwargs self_request kwargs) ''tagging__user'' =
       (if kwargs ''tag'' = Some ''mine'' then Some (User (user self_request)) else None)
   \<and> fst ` set (filter_kwargs self_request kwargs) \<subseteq> {''tagging__team__name'', ''tagging__user''}
   \<and> distinct (map fst (filter_kwargs self_request kwargs))
   \<and> EpisodeListView_get env self_request kwargs st =
       (Inr \<lparr>status_code = default_status_code env,
             content = Some (serialised_active env st (user self_request)
                               (filter_kwargs self_request kwargs)),
             headers = json_headers env\<rparr>, st)"
  by (auto simp add: filter_kwargs_def EpisodeListView_get_def build_json_response_def Let_def
      split: option.splits)

theorem filter_kwargs_precedence_witness:
  "filter_kwargs example_request [''tag'' \<mapsto> ''micro'', ''subtag'' \<mapsto> ''ortho''] =
     [(''tagging__team__name'', Name ''ortho'')]
   \<and> filter_kwargs example_request [''tag'' \<mapsto> ''micro''] =
     [(''tagging__team__name'', Name ''micro'')]
   \<and> filter_kwargs example_request [''tag'' \<mapsto> ''mine''] =
     [(''tagging__team__name'', Name ''mine''), (''tagging__user'', User ''jane'')]
   \<and> filter_kwargs example_request Map.empty = []"
  using filter_kwargs_precedence [of example_request "[''tag'' \<mapsto> ''mine'']" example_env example_state]
  by (simp add: filter_kwargs_def example_request_def)

subsection \<open>The column context\<close>














subsection \<open>Copying an episode to a category\<close>

lemma next_pk_above: "Some k \<in> set pks \<Longrightarrow> k < next_pk pks"
proof -
  assume "Some k \<in> set pks"
  then have "k \<in> set (List.map_filter (\<lambda>k. k) pks)"
    by (force simp add: List.map_filter_def)
  then have "k \<le> Max (set (0 # List.map_filter (\<lambda>k. k) pks))"
    by simp
  then show ?thesis
    by (simp only: next_pk_def Max.set_eq_fold)
qed

lemma next_pk_fresh: "Some (next_pk pks) \<notin> set pks"
  using next_pk_above [of "next_pk pks" pks] by auto

lemma save_new_item:
  "save_item (i\<lparr>item_pk := None, item_episode := e\<rparr>) rows =
     (i\<lparr>item_pk := Some (next_pk (map item_pk rows)), item_episode := e\<rparr>,
      rows @ [i\<lparr>item_pk := Some (next_pk (map item_pk rows)), item_episode := e\<rparr>])"
  by (simp add: save_item_def Let_def)

lemma copy_fold:
  "\<exists>cs. foldl (\<lambda>rows i. snd (save_item (i\<lparr>item_pk := None, item_episode := e\<rparr>) rows)) rows ms
           = rows @ cs
        \<and> map item_fields cs = map item_fields ms
        \<and> (\<forall>c \<in> set cs. item_episode c = e
              \<and> (\<exists>k. item_pk c = Some k \<and> (\<forall>j. Some j \<in> set (map item_pk rows) \<longrightarrow> j < k)))
        \<and> distinct (map item_pk cs)"
proof (induction ms arbitrary: rows)
  case Nil
  then show ?case by simp
next
  case (Cons m ms)
  let ?k = "next_pk (map item_pk rows)"
  let ?c = "m\<lparr>item_pk := Some ?k, item_episode := e\<rparr>"
  from Cons [of "rows @ [?c]"] obtain cs where
    f: "foldl (\<lambda>rows i. snd (save_item (i\<lparr>item_pk := None, item_episode := e\<rparr>) rows))
          (rows @ [?c]) ms = (rows @ [?c]) @ cs"
    and fields: "map item_fields cs = map item_fields ms"
    and each: "\<forall>c \<in> set cs. item_episode c = e
              \<and> (\<exists>k. item_pk c = Some k
                    \<and> (\<forall>j. Some j \<in> set (map item_pk (rows @ [?c])) \<longrightarrow> j < k))"
    and d: "distinct (map item_pk cs)"
    by blast
  have above: "\<forall>j. Some j \<in> set (map item_pk rows) \<longrightarrow> j < ?k"
    by (simp add: next_pk_above)
  have "Some ?k \<notin> set (map item_pk cs)"
  proof
    assume "Some ?k \<in> set (map item_pk cs)"
    then obtain c where "c \<in> set cs" "item_pk c = Some ?k"
      by auto
    with each have "?k < ?k" by fastforce
    then show False by simp
  qed
  with d have d': "distinct (map item_pk (?c # cs))"
    by simp
  have each': "\<forall>c \<in> set (?c # cs). item_episode c = e
              \<and> (\<exists>k. item_pk c = Some k \<and> (\<forall>j. Some j \<in> set (map item_pk rows) \<longrightarrow> j < k))"
    using each above by fastforce
  show ?case
    using f fields each' d'
    by (intro exI [of _ "?c # cs"]) (simp add: save_new_item)
qed

lemma copy_items_appends:
  "\<exists>cs. copy_items old new rows = rows @ cs
        \<and> map item_fields cs =
            map item_fields (filter (\<lambda>i. item_episode i = episode_pk old) rows)
        \<and> (\<forall>c \<in> set cs. item_episode c = episode_pk new
              \<and> item_pk c \<noteq> None \<and> item_pk c \<notin> set (map item_pk rows))
        \<and> distinct (map item_pk cs)"
proof -
  from copy_fold [of "episode_pk new" rows "filter (\<lambda>i. item_episode i = episode_pk old) rows"]
  obtain cs where a: "copy_items old new rows = rows @ cs"
    and b: "map item_fields cs =
            map item_fields (filter (\<lambda>i. item_episode i = episode_pk old) rows)"
    and c: "\<forall>c \<in> set cs. item_episode c = episode_pk new
              \<and> (\<exists>k. item_pk c = Some k \<and> (\<forall>j. Some j \<in> set (map item_pk rows) \<longrightarrow> j < k))"
    and d: "distinct (map item_pk cs)"
    unfolding copy_items_def by blast
  have "item_episode c = episode_pk new \<and> item_pk c \<noteq> None
          \<and> item_pk c \<notin> set (map item_pk rows)" if "c \<in> set cs" for c
  proof -
    from c that obtain k where k: "item_episode c = episode_pk new" "item_pk c = Some k"
      "\<forall>j. Some j \<in> set (map item_pk rows) \<longrightarrow> j < k"
      by blast
    then have "Some k \<notin> set (map item_pk rows)"
      by blast
    with k show ?thesis by simp
  qed
  with a b d show ?thesis by blast
qed

lemma save_new_episode:
  "save_episode \<lparr>episode_pk = None, patient = p, category = c, date_of_admission = d\<rparr> rows =
     (\<lparr>episode_pk = Some (next_pk (map episode_pk rows)), patient = p, category = c,
       date_of_admission = d\<rparr>,
      rows @ [\<lparr>episode_pk = Some (next_pk (map episode_pk rows)), patient = p, category = c,
               date_of_admission = d\<rparr>])"
  by (simp add: save_episode_def Let_def)

lemma episode_get_append:
  "episode_get rows pk = Some e \<Longrightarrow> episode_get (rows @ more_rows) pk = Some e"
  by (induction rows) (auto simp add: episode_get_def)

text \<open>
  Claim C9. A POST to \<^verbatim>\<open>EpisodeCopyToCategoryView\<close> on an existing episode creates one
  episode, under a primary key not used before, with the patient and the date of admission
  of the old episode and the requested category; for each episode subrecord model that is
  not a singleton, every row attached to the old episode is duplicated, fields unchanged, as
  a new row under a new primary key attached to the new episode, and nothing else is added;
  the tables of singleton models are not touched; the old episode and all rows present
  before are unchanged. \<^verbatim>\<open>save()\<close> is the insert of the framework.
\<close>

theorem copy_to_category_effect:
  assumes "episode_get (episodes st) pk = Some old"
  shows "\<exists>r new st'.
           EpisodeCopyToCategoryView_post env self_request pk new_category st = (Inr r, st')
         \<and> episodes st' = episodes st @ [new]
         \<and> patient new = patient old
         \<and> date_of_admission new = date_of_admission old
         \<and> category new = new_category
         \<and> episode_pk new \<noteq> None
         \<and> episode_pk new \<notin> set (map episode_pk (episodes st))
         \<and> episode_get (episodes st') pk = Some old
         \<and> length (subrecords st') = length (subrecords st)
         \<and> (\<forall>n < length (subrecords st).
               model (subrecords st' ! n) = model (subrecords st ! n)
               \<and> (if col_is_singleton (model (subrecords st ! n))
                  then objects (subrecords st' ! n) = objects (subrecords st ! n)
                  else (\<exists>copies.
                          objects (subrecords st' ! n) = objects (subrecords st ! n) @ copies
                        \<and> map item_fields copies =
                            map item_fields (filter (\<lambda>i. item_episode i = episode_pk old)
                                               (objects (subrecords st ! n)))
                        \<and> (\<forall>c \<in> set copies.
                              item_episode c = episode_pk new
                            \<and> item_pk c \<noteq> None
                            \<and> item_pk c \<notin> set (map item_pk (objects (subrecords st ! n))))
                        \<and> distinct (map item_pk copies))))"
proof -
  let ?k = "next_pk (map episode_pk (episodes st))"
  let ?new = "\<lparr>episode_pk = Some ?k, patient = patient old, category = new_category,
                date_of_admission = date_of_admission old\<rparr>"
  let ?subs = "map (copy_subrecord old ?new) (subrecords st)"
  let ?st2 = "st\<lparr>episodes := episodes st @ [?new], subrecords := ?subs\<rparr>"
  let ?ser = "to_dict env ?st2 ?new (user self_request) False"
  let ?st3 = "?st2\<lparr>glossolalia := glossolalia ?st2 @ [Admit ?ser]\<rparr>"
  have run: "EpisodeCopyToCategoryView_post env self_request pk new_category st =
               (Inr (build_json_response env ?ser None), ?st3)"
    using assms
    by (simp add: EpisodeCopyToCategoryView_post_def save_new_episode Let_def)
  have fresh: "episode_pk ?new \<notin> set (map episode_pk (episodes st))"
    using next_pk_fresh [of "map episode_pk (episodes st)"] by simp
  have old: "episode_get (episodes ?st3) pk = Some old"
    using assms by (simp add: episode_get_append)
  have each: "model (subrecords ?st3 ! n) = model (subrecords st ! n)
               \<and> (if col_is_singleton (model (subrecords st ! n))
                  then objects (subrecords ?st3 ! n) = objects (subrecords st ! n)
                  else (\<exists>copies.
                          objects (subrecords ?st3 ! n) = objects (subrecords st ! n) @ copies
                        \<and> map item_fields copies =
                            map item_fields (filter (\<lambda>i. item_episode i = episode_pk old)
                                               (objects (subrecords st ! n)))
                        \<and> (\<forall>c \<in> set copies.
                              item_episode c = episode_pk ?new
                            \<and> item_pk c \<noteq> None
                            \<and> item_pk c \<notin> set (map item_pk (objects (subrecords st ! n))))
                        \<and> distinct (map item_pk copies)))"
    if "n < length (subrecords st)" for n
    using that copy_items_appends [of old ?new "objects (subrecords st ! n)"]
    by (simp add: copy_subrecord_def)
  have new: "episodes ?st3 = episodes st @ [?new]" "patient ?new = patient old"
    "date_of_admission ?new = date_of_admission old" "category ?new = new_category"
    "episode_pk ?new \<noteq> None" "length (subrecords ?st3) = length (subrecords st)"
    by simp_all
  from run new fresh old each show ?thesis
    by blast
qed

lemma example_copy:
  "episodes (snd (EpisodeCopyToCategoryView_post example_env example_request 3 ''Day case''
                    example_state)) =
     episodes example_state @
     [\<lparr>episode_pk = Some 5, patient = 7, category = ''Day case'',
       date_of_admission = JStr ''2014-01-02''\<rparr>]"
  "map objects (subrecords (snd (EpisodeCopyToCategoryView_post example_env example_request 3
                                   ''Day case'' example_state))) =
     [[\<lparr>item_pk = Some 6, item_episode = Some 3, item_fields = [(''ward'', JStr ''T8'')]\<rparr>,
       \<lparr>item_pk = Some 7, item_episode = Some 4, item_fields = [(''ward'', JStr ''T9'')]\<rparr>],
      [\<lparr>item_pk = Some 6, item_episode = Some 3, item_fields = [(''condition'', JStr ''CAP'')]\<rparr>,
       \<lparr>item_pk = Some 7, item_episode = Some 4, item_fields = [(''condition'', JStr ''UTI'')]\<rparr>,
       \<lparr>item_pk = Some 9, item_episode = Some 3, item_fields = [(''condition'', JStr ''AKI'')]\<rparr>,
       \<lparr>item_pk = Some 10, item_episode = Some 5, item_fields = [(''condition'', JStr ''CAP'')]\<rparr>,
       \<lparr>item_pk = Some 11, item_episode = Some 5,
        item_fields = [(''condition'', JStr ''AKI'')]\<rparr>]]"
  by (simp_all add: EpisodeCopyToCategoryView_post_def example_state_def episode_get_def
      save_episode_def copy_subrecord_def copy_items_def save_item_def next_pk_def Let_def
      Location_def Diagnosis_def)

theorem copy_to_category_effect_witness:
  "episode_get (episodes example_state) 3 =
     Some \<lparr>episode_pk = Some 3, patient = 7, category = ''Inpatient'',
           date_of_admission = JStr ''2014-01-02''\<rparr>
   \<and> (\<exists>r new st'.
         EpisodeCopyToCategoryView_post example_env example_request 3 ''Day case'' example_state
           = (Inr r, st')
       \<and> episodes st' = episodes example_state @ [new]
       \<and> new = \<lparr>episode_pk = Some 5, patient = 7, category = ''Day case'',
                 date_of_admission = JStr ''2014-01-02''\<rparr>
       \<and> episode_get (episodes st') 3 = episode_get (episodes example_state) 3
       \<and> map objects (subrecords st') =
           [objects (subrecords example_state ! 0),
            objects (subrecords example_state ! 1) @
            [\<lparr>item_pk = Some 10, item_episode = Some 5,
              item_fields = [(''condition'', JStr ''CAP'')]\<rparr>,
             \<lparr>item_pk = Some 11, item_episode = Some 5,
              item_fields = [(''condition'', JStr ''AKI'')]\<rparr>]])"
proof -
  have g: "episode_get (episodes example_state) 3 =
     Some \<lparr>episode_pk = Some 3, patient = 7, category = ''Inpatient'',
           date_of_admission = JStr ''2014-01-02''\<rparr>"
    by (simp add: example_state_def episode_get_def)
  from copy_to_category_effect [OF g, of example_env example_request "''Day case''"]
  obtain r new st' where
    run: "EpisodeCopyToCategoryView_post example_env example_request 3 ''Day case'' example_state
            = (Inr r, st')"
    and eps: "episodes st' = episodes example_state @ [new]"
    and old: "episode_get (episodes st') 3 =
                Some \<lparr>episode_pk = Some 3, patient = 7, category = ''Inpatient'',
                      date_of_admission = JStr ''2014-01-02''\<rparr>"
    by blast
  from run have st': "st' = snd (EpisodeCopyToCategoryView_post example_env example_request 3
                                  ''Day case'' example_state)"
    by simp
  have new: "new = \<lparr>episode_pk = Some 5, patient = 7, category = ''Day case'',
                    date_of_admission = JStr ''2014-01-02''\<rparr>"
    using eps example_copy(1) by (simp add: st')
  have rows: "map objects (subrecords st') =
           [objects (subrecords example_state ! 0),
            objects (subrecords example_state ! 1) @
            [\<lparr>item_pk = Some 10, item_episode = Some 5,
              item_fields = [(''condition'', JStr ''CAP'')]\<rparr>,
             \<lparr>item_pk = Some 11, item_episode = Some 5,
              item_fields = [(''condition'', JStr ''AKI'')]\<rparr>]]"
    using example_copy(2) by (simp add: st') (simp add: example_state_def)
  from g run eps old new rows show ?thesis
    by (intro conjI exI [of _ r] exI [of _ new] exI [of _ st']) simp_all
qed

end
